theory Spec2Isabelle
  imports Complex_Main
begin

section \<open>JavaScript values\<close>

text \<open>
  The server of \<^verbatim>\<open>src/index.ts\<close> receives JSON-RPC requests and talks to the
  Spaceship API through an HTTP client. Everything it handles at run time is a JavaScript
  value that came out of a JSON text: the argument bag of a tool call, the body of an
  upstream response, the body of an upstream error. The TypeScript interfaces (Domain,
  DnsRecord, Contact) are erased at run time and nothing checks them, so the model works
  on the untyped values.

  Strings are byte strings (UTF-8). A number is a double: \<open>Fin q\<close> is the finite double of
  value \<open>q\<close> (both zeros are \<open>Fin 0\<close>; the code only tests a number for being falsy, which
  both zeros are), and the three other values are \<open>NaN\<close> and the infinities. An object is
  the list of its own properties; no key occurs twice.
\<close>

datatype jsnum = NaN | PosInfinity | NegInfinity | Fin rat

datatype jsval =
    Undefined
  | Null
  | Bool bool
  | Num jsnum
  | Str string
  | Arr "jsval list"
  | Obj "(string \<times> jsval) list"

text \<open>
  The error codes of the protocol library that the server uses, and what a handler can
  throw: an \<open>McpError\<close> with its code and the message given to its constructor, a
  \<open>TypeError\<close> of the language itself, or an exception of the HTTP client that the
  gateway passed on as it was (\<open>Rethrown\<close>).
\<close>

datatype ErrorCode = InvalidRequest | MethodNotFound | InvalidParams | InternalError

datatype error = McpError ErrorCode string | TypeError | Rethrown string

text \<open>
  What the platform computes and this theory does not: the conversions between strings
  and doubles, the text that \<^verbatim>\<open>JSON.stringify(v, null, 2)\<close> writes for a value other than
  \<^verbatim>\<open>undefined\<close>, and two parts of the URL parser (the URLs with a special scheme or an
  opaque path, and the IPv6 literals). They are parameters of the model; every theorem
  holds whatever they are.
\<close>

record platform =
  StringToNumber :: "string \<Rightarrow> jsnum"
  NumberToString :: "jsnum \<Rightarrow> string"
  JSON_text :: "jsval \<Rightarrow> string"
  URL_else :: "string \<Rightarrow> string \<Rightarrow> (string \<times> string) option"
  IPv6_host :: "string \<Rightarrow> string option"

fun collect :: "('e + 'a) list \<Rightarrow> 'e + 'a list" where
  "collect [] = Inr []"
| "collect (x # xs) =
     (case x of
        Inl e \<Rightarrow> Inl e
      | Inr a \<Rightarrow> (case collect xs of Inl e \<Rightarrow> Inl e | Inr as \<Rightarrow> Inr (a # as)))"

fun join :: "string \<Rightarrow> string list \<Rightarrow> string" where
  "join sep [] = []"
| "join sep [x] = x"
| "join sep (x # y # ys) = x @ sep @ join sep (y # ys)"

text \<open>
  \<^verbatim>\<open>String(v)\<close> and the conversion inside a template literal. An array is joined with
  commas, \<^verbatim>\<open>undefined\<close> and \<^verbatim>\<open>null\<close> elements giving the empty string. A plain object
  gives \<^verbatim>\<open>[object Object]\<close> through \<^verbatim>\<open>Object.prototype.toString\<close>, unless it has an own
  property \<^verbatim>\<open>toString\<close>: a value read from JSON is never callable, the inherited
  \<^verbatim>\<open>valueOf\<close> returns the object itself, and the conversion throws a TypeError.
\<close>

fun ToString :: "platform \<Rightarrow> jsval \<Rightarrow> error + string" where
  "ToString P Undefined = Inr ''undefined''"
| "ToString P Null = Inr ''null''"
| "ToString P (Bool b) = Inr (if b then ''true'' else ''false'')"
| "ToString P (Num n) = Inr (NumberToString P n)"
| "ToString P (Str s) = Inr s"
| "ToString P (Arr xs) =
     (case collect (map (\<lambda>x. if x = Undefined \<or> x = Null then Inr [] else ToString P x) xs) of
        Inl e \<Rightarrow> Inl e
      | Inr ss \<Rightarrow> Inr (join '','' ss))"
| "ToString P (Obj kvs) =
     (if ''toString'' \<in> fst ` set kvs then Inl TypeError else Inr ''[object Object]'')"

text \<open>\<^verbatim>\<open>Number(v)\<close>: an array or object is first converted as above.\<close>

fun ToNumber :: "platform \<Rightarrow> jsval \<Rightarrow> error + jsnum" where
  "ToNumber P Undefined = Inr NaN"
| "ToNumber P Null = Inr (Fin 0)"
| "ToNumber P (Bool b) = Inr (Fin (if b then 1 else 0))"
| "ToNumber P (Num n) = Inr n"
| "ToNumber P (Str s) = Inr (StringToNumber P s)"
| "ToNumber P v =
     (case ToString P v of Inl e \<Rightarrow> Inl e | Inr s \<Rightarrow> Inr (StringToNumber P s))"

fun truthy :: "jsval \<Rightarrow> bool" where
  "truthy Undefined = False"
| "truthy Null = False"
| "truthy (Bool b) = b"
| "truthy (Num n) = (n \<noteq> NaN \<and> n \<noteq> Fin 0)"
| "truthy (Str s) = (s \<noteq> [])"
| "truthy (Arr xs) = True"
| "truthy (Obj kvs) = True"

text \<open>\<^verbatim>\<open>a || b\<close>\<close>

definition js_or :: "jsval \<Rightarrow> jsval \<Rightarrow> jsval" where
  "js_or a b = (if truthy a then a else b)"

text \<open>
  \<^verbatim>\<open>v?.k\<close> and \<^verbatim>\<open>v.k\<close>, for the keys the server reads (\<^verbatim>\<open>take\<close>, \<^verbatim>\<open>skip\<close>,
  \<^verbatim>\<open>domain\<close>, \<^verbatim>\<open>contactId\<close>, \<^verbatim>\<open>operationId\<close>, \<^verbatim>\<open>data\<close>, \<^verbatim>\<open>message\<close>, \<^verbatim>\<open>domains\<close>,
  \<^verbatim>\<open>records\<close>, \<^verbatim>\<open>name\<close>, \<^verbatim>\<open>status\<close>, \<^verbatim>\<open>expiresAt\<close>): none of them is a property of a
  built-in prototype, so a value that is no object, or has no such own property, gives
  \<^verbatim>\<open>undefined\<close>.
\<close>

fun opt_get :: "jsval \<Rightarrow> string \<Rightarrow> jsval" where
  "opt_get (Obj kvs) k = (case map_of kvs k of Some v \<Rightarrow> v | None \<Rightarrow> Undefined)"
| "opt_get v k = Undefined"

fun js_get :: "jsval \<Rightarrow> string \<Rightarrow> error + jsval" where
  "js_get Undefined k = Inl TypeError"
| "js_get Null k = Inl TypeError"
| "js_get v k = Inr (opt_get v k)"

text \<open>\<^verbatim>\<open>JSON.stringify(v, null, 2)\<close>, which is \<^verbatim>\<open>undefined\<close> for \<^verbatim>\<open>undefined\<close>.\<close>

definition JSON_stringify :: "platform \<Rightarrow> jsval \<Rightarrow> jsval" where
  "JSON_stringify P v = (if v = Undefined then Undefined else Str (JSON_text P v))"

text \<open>\<^verbatim>\<open>s.split(sep)\<close> for a separator of one character, and \<^verbatim>\<open>xs[i]\<close>.\<close>

fun split :: "char \<Rightarrow> string \<Rightarrow> string list" where
  "split sep [] = [[]]"
| "split sep (c # cs) =
     (if c = sep then [] # split sep cs
      else (case split sep cs of p # ps \<Rightarrow> (c # p) # ps | [] \<Rightarrow> [[c]]))"

definition at_index :: "string list \<Rightarrow> nat \<Rightarrow> jsval" where
  "at_index xs i = (if i < length xs then Str (xs ! i) else Undefined)"


section \<open>The URL constructor\<close>

text \<open>
  \<^verbatim>\<open>new URL(input)\<close> with no base, after the basic URL parser of the URL Standard; \<open>None\<close>
  is the TypeError that the constructor throws. Of the parsed URL the model keeps what the
  getters \<^verbatim>\<open>protocol\<close>, \<^verbatim>\<open>hostname\<close> and \<^verbatim>\<open>pathname\<close> return.

  The states of the parser are written out for the URLs \<^verbatim>\<open>scheme:/...\<close> of a scheme that
  is not special, those a resource URI of this server is among. For a special scheme
  (\<^verbatim>\<open>http\<close>, \<^verbatim>\<open>file\<close>, ...) and for an opaque path (no slash after the colon) the
  hostname and pathname are what the platform's parser gives, \<open>URL_else P scheme rest\<close>,
  and so is the hostname of an IPv6 literal \<^verbatim>\<open>[s]\<close>, \<open>IPv6_host P s\<close>; both are \<open>None\<close>
  where the parser fails.
\<close>

record URL =
  protocol :: string
  hostname :: string
  pathname :: string

definition ascii_alpha :: "char \<Rightarrow> bool" where
  "ascii_alpha c =
     (let n = of_char c :: nat in (65 \<le> n \<and> n \<le> 90) \<or> (97 \<le> n \<and> n \<le> 122))"

definition ascii_digit :: "char \<Rightarrow> bool" where
  "ascii_digit c = (let n = of_char c :: nat in 48 \<le> n \<and> n \<le> 57)"

definition ascii_lower :: "char \<Rightarrow> char" where
  "ascii_lower c =
     (case map_of (zip ''ABCDEFGHIJKLMNOPQRSTUVWXYZ'' ''abcdefghijklmnopqrstuvwxyz'') c of
        Some l \<Rightarrow> l
      | None \<Rightarrow> c)"

definition c0_or_space :: "char \<Rightarrow> bool" where
  "c0_or_space c = (of_char c \<le> (32 :: nat))"

definition tab_or_newline :: "char \<Rightarrow> bool" where
  "tab_or_newline c = (c = CHR 0x09 \<or> c = CHR 0x0A \<or> c = CHR 0x0D)"

text \<open>Leading and trailing C0 controls and spaces go, then every tab and newline.\<close>

definition strip_input :: "string \<Rightarrow> string" where
  "strip_input s =
     filter (\<lambda>c. \<not> tab_or_newline c) (rev (dropWhile c0_or_space (rev (dropWhile c0_or_space s))))"

definition scheme_char :: "char \<Rightarrow> bool" where
  "scheme_char c =
     (ascii_alpha c \<or> ascii_digit c \<or> c = CHR ''+'' \<or> c = CHR ''-'' \<or> c = CHR ''.'')"

text \<open>
  Scheme start state and scheme state: a letter, then letters, digits, \<open>+\<close>, \<open>-\<close> and
  \<open>.\<close> up to a colon. Anything else is a URL with no scheme, a failure when there is no
  base. The result is the scheme in lower case and what follows the colon.
\<close>

definition parse_scheme :: "string \<Rightarrow> (string \<times> string) option" where
  "parse_scheme s =
     (case s of
        [] \<Rightarrow> None
      | c # cs \<Rightarrow>
          if ascii_alpha c then
            (case dropWhile scheme_char cs of
               [] \<Rightarrow> None
             | d # rest \<Rightarrow>
                 if d = CHR '':'' then Some (map ascii_lower (c # takeWhile scheme_char cs), rest)
                 else None)
          else None)"

definition special_scheme :: "string \<Rightarrow> bool" where
  "special_scheme s = (s \<in> set [''ftp'', ''file'', ''http'', ''https'', ''ws'', ''wss''])"

definition hex_digit :: "nat \<Rightarrow> char" where
  "hex_digit n = ''0123456789ABCDEF'' ! n"

definition percent_byte :: "char \<Rightarrow> string" where
  "percent_byte c =
     (let n = of_char c :: nat in [CHR ''%'', hex_digit (n div 16), hex_digit (n mod 16)])"

definition percent_encode :: "(char \<Rightarrow> bool) \<Rightarrow> string \<Rightarrow> string" where
  "percent_encode enc s = concat (map (\<lambda>c. if enc c then percent_byte c else [c]) s)"

definition c0_control_set :: "char \<Rightarrow> bool" where
  "c0_control_set c = (let n = of_char c :: nat in n \<le> 31 \<or> 126 < n)"

text \<open>
  The characters that the parser percent-encodes in a path, as the runtime of the server
  has them: a caret stays as it is.
\<close>

definition path_set :: "char \<Rightarrow> bool" where
  "path_set c =
     (c0_control_set c \<or>
      c \<in> set [CHR '' '', CHR 0x22, CHR ''#'', CHR ''<'', CHR ''>'',
                CHR ''?'', CHR 0x60, CHR ''{'', CHR ''}''])"

definition forbidden_host_code_point :: "char \<Rightarrow> bool" where
  "forbidden_host_code_point c =
     (c \<in> set [CHR 0x00, CHR 0x09, CHR 0x0A, CHR 0x0D, CHR '' '', CHR ''#'', CHR ''/'',
                CHR '':'', CHR ''<'', CHR ''>'', CHR ''?'', CHR ''@'', CHR ''['', CHR 0x5C,
                CHR '']'', CHR ''^'', CHR ''|''])"

text \<open>
  The host parser for a scheme that is not special: an IPv6 literal in brackets, or an
  opaque host, which fails on a forbidden host code point.
\<close>

definition parse_opaque_host :: "platform \<Rightarrow> string \<Rightarrow> string option" where
  "parse_opaque_host P h =
     (case h of
        [] \<Rightarrow> Some []
      | c # cs \<Rightarrow>
          if c = CHR ''['' then
            (if cs \<noteq> [] \<and> last cs = CHR '']'' then IPv6_host P (butlast cs) else None)
          else if list_ex forbidden_host_code_point h then None
          else Some (percent_encode c0_control_set h))"

text \<open>
  Host state: the host runs to the first colon outside brackets; the port is what
  follows it.
\<close>

fun split_port :: "bool \<Rightarrow> string \<Rightarrow> string \<times> string option" where
  "split_port inside [] = ([], None)"
| "split_port inside (c # cs) =
     (if c = CHR '':'' \<and> \<not> inside then ([], Some cs)
      else (case split_port
                   (if c = CHR ''['' then True else if c = CHR '']'' then False else inside) cs of
              (h, p) \<Rightarrow> (c # h, p)))"

definition decimal :: "string \<Rightarrow> nat" where
  "decimal p = foldl (\<lambda>a c. 10 * a + (of_char c - 48)) 0 p"

definition valid_port :: "string \<Rightarrow> bool" where
  "valid_port p = (list_all ascii_digit p \<and> (p = [] \<or> decimal p \<le> 65535))"

text \<open>
  Authority state, host state and port state, on the text between \<open>//\<close> and the next
  \<open>/\<close>, \<open>?\<close> or \<open>#\<close>. Credentials end at the last \<open>@\<close>; an empty host after
  credentials or before a port is a failure. The result is the host.
\<close>

definition parse_authority :: "platform \<Rightarrow> string \<Rightarrow> string option" where
  "parse_authority P auth =
     (let hostport = rev (takeWhile (\<lambda>c. c \<noteq> CHR ''@'') (rev auth)) in
      if CHR ''@'' \<in> set auth \<and> hostport = [] then None
      else
        (case split_port False hostport of
           (h, None) \<Rightarrow> parse_opaque_host P h
         | (h, Some p) \<Rightarrow>
             if h = [] then None
             else (case parse_opaque_host P h of
                     None \<Rightarrow> None
                   | Some host \<Rightarrow> if valid_port p then Some host else None)))"

definition single_dot :: "string \<Rightarrow> bool" where
  "single_dot s = (map ascii_lower s \<in> set [''.'', ''%2e''])"

definition double_dot :: "string \<Rightarrow> bool" where
  "double_dot s = (map ascii_lower s \<in> set [''..'', ''.%2e'', ''%2e.'', ''%2e%2e''])"

text \<open>
  Path state, segment by segment: the path so far and the segments still to read. The
  last segment is the one that no \<open>/\<close> follows.
\<close>

fun path_state :: "string list \<Rightarrow> string list \<Rightarrow> string list" where
  "path_state path [] = path"
| "path_state path (seg # segs) =
     (let buffer = percent_encode path_set seg in
      path_state
        (if double_dot buffer then butlast path @ (if segs = [] then [[]] else [])
         else if single_dot buffer then path @ (if segs = [] then [[]] else [])
         else path @ [buffer])
        segs)"

definition query_or_fragment :: "char \<Rightarrow> bool" where
  "query_or_fragment c = (c = CHR ''?'' \<or> c = CHR ''#'')"

definition parse_path :: "string \<Rightarrow> string" where
  "parse_path s =
     concat (map ((#) CHR ''/'')
       (path_state [] (split CHR ''/'' (takeWhile (\<lambda>c. \<not> query_or_fragment c) s))))"

definition authority_end :: "char \<Rightarrow> bool" where
  "authority_end c = (c = CHR ''/'' \<or> query_or_fragment c)"

text \<open>
  What follows \<open>scheme:/\<close>. A second slash opens the authority, and the path starts at
  the slash that ends it; with no second slash the URL has no host and the path starts
  here.
\<close>

definition parse_hierarchical :: "platform \<Rightarrow> string \<Rightarrow> string \<Rightarrow> URL option" where
  "parse_hierarchical P scheme r =
     (case r of
        c # r' \<Rightarrow>
          if c = CHR ''/'' then
            (case parse_authority P (takeWhile (\<lambda>c. \<not> authority_end c) r') of
               None \<Rightarrow> None
             | Some host \<Rightarrow>
                 Some \<lparr>protocol = scheme @ '':'', hostname = host,
                       pathname =
                         (case dropWhile (\<lambda>c. \<not> authority_end c) r' of
                            [] \<Rightarrow> []
                          | d # rest \<Rightarrow> if d = CHR ''/'' then parse_path rest else [])\<rparr>)
          else Some \<lparr>protocol = scheme @ '':'', hostname = [], pathname = parse_path r\<rparr>
      | [] \<Rightarrow> Some \<lparr>protocol = scheme @ '':'', hostname = [], pathname = parse_path r\<rparr>)"

definition new_URL :: "platform \<Rightarrow> string \<Rightarrow> URL option" where
  "new_URL P input =
     (case parse_scheme (strip_input input) of
        None \<Rightarrow> None
      | Some (scheme, rest) \<Rightarrow>
          (case rest of
             c # r \<Rightarrow>
               if c = CHR ''/'' \<and> \<not> special_scheme scheme then parse_hierarchical P scheme r
               else map_option (\<lambda>(h, p). \<lparr>protocol = scheme @ '':'', hostname = h, pathname = p\<rparr>)
                      (URL_else P scheme rest)
           | [] \<Rightarrow>
               map_option (\<lambda>(h, p). \<lparr>protocol = scheme @ '':'', hostname = h, pathname = p\<rparr>)
                 (URL_else P scheme rest)))"


section \<open>The gateway: \<^verbatim>\<open>SpaceshipClient\<close>\<close>

text \<open>
  The HTTP client is a parameter: a function from the request the gateway makes to what
  the client does with it, a response body or an exception. An exception of the client is
  an \<open>AxiosError\<close>, with the \<^verbatim>\<open>response\<close> it carries (\<^verbatim>\<open>undefined\<close> when none
  arrived) and its own message, or anything else. Every operation makes one request; the
  model returns, with its result, the list of the requests made.
\<close>

datatype request =
    GET string "(string \<times> jsval) list"
  | POST string jsval
  | PUT string jsval

datatype transport_error = AxiosError jsval string | NonAxiosError string

type_synonym transport = "request \<Rightarrow> transport_error + jsval"

type_synonym outcome = "(error + jsval) \<times> request list"

text \<open>
  The \<^verbatim>\<open>catch\<close> block that every operation repeats: an AxiosError becomes an
  \<open>McpError\<close> of code \<open>InternalError\<close>, whose message is
  \<^verbatim>\<open>error.response?.data?.message || error.message\<close> behind a fixed prefix; any other
  exception is thrown again.
\<close>

definition catch_block :: "platform \<Rightarrow> transport_error \<Rightarrow> error" where
  "catch_block P e =
     (case e of
        AxiosError response message \<Rightarrow>
          (case ToString P (js_or (opt_get (opt_get response ''data'') ''message'') (Str message)) of
             Inl t \<Rightarrow> t
           | Inr s \<Rightarrow> McpError InternalError (''Spaceship API error: '' @ s))
      | NonAxiosError x \<Rightarrow> Rethrown x)"

definition send :: "platform \<Rightarrow> transport \<Rightarrow> request \<Rightarrow> outcome" where
  "send P ax req =
     ((case ax req of Inl e \<Rightarrow> Inl (catch_block P e) | Inr data \<Rightarrow> Inr data), [req])"

text \<open>A parameter with a default value takes it when the argument is \<^verbatim>\<open>undefined\<close>.\<close>

definition default_param :: "jsval \<Rightarrow> jsval \<Rightarrow> jsval" where
  "default_param v d = (if v = Undefined then d else v)"

definition getDomains :: "platform \<Rightarrow> transport \<Rightarrow> jsval \<Rightarrow> jsval \<Rightarrow> outcome" where
  "getDomains P ax take' skip' =
     (case send P ax (GET ''/domains''
                        [(''take'', default_param take' (Num (Fin 10))),
                         (''skip'', default_param skip' (Num (Fin 0)))]) of
        (Inl e, reqs) \<Rightarrow> (Inl e, reqs)
      | (Inr data, reqs) \<Rightarrow> (js_get data ''domains'', reqs))"

definition checkDomainAvailability :: "platform \<Rightarrow> transport \<Rightarrow> jsval \<Rightarrow> outcome" where
  "checkDomainAvailability P ax domain =
     (case ToString P domain of
        Inl e \<Rightarrow> (Inl e, [])
      | Inr d \<Rightarrow> send P ax (GET (''/domains/availability/'' @ d) []))"

definition getDomainInfo :: "platform \<Rightarrow> transport \<Rightarrow> jsval \<Rightarrow> outcome" where
  "getDomainInfo P ax domain =
     (case ToString P domain of
        Inl e \<Rightarrow> (Inl e, [])
      | Inr d \<Rightarrow> send P ax (GET (''/domains/'' @ d) []))"

definition registerDomain :: "platform \<Rightarrow> transport \<Rightarrow> jsval \<Rightarrow> jsval \<Rightarrow> outcome" where
  "registerDomain P ax domain contactId =
     send P ax (POST ''/domains'' (Obj [(''domain'', domain), (''contactId'', contactId)]))"

definition getDnsRecords :: "platform \<Rightarrow> transport \<Rightarrow> jsval \<Rightarrow> outcome" where
  "getDnsRecords P ax domain =
     (case ToString P domain of
        Inl e \<Rightarrow> (Inl e, [])
      | Inr d \<Rightarrow>
          (case send P ax (GET (''/domains/'' @ d @ ''/dns'') []) of
             (Inl e, reqs) \<Rightarrow> (Inl e, reqs)
           | (Inr data, reqs) \<Rightarrow> (js_get data ''records'', reqs)))"

definition updateDnsRecords :: "platform \<Rightarrow> transport \<Rightarrow> jsval \<Rightarrow> jsval \<Rightarrow> outcome" where
  "updateDnsRecords P ax domain records =
     (case ToString P domain of
        Inl e \<Rightarrow> (Inl e, [])
      | Inr d \<Rightarrow> send P ax (PUT (''/domains/'' @ d @ ''/dns'') (Obj [(''records'', records)])))"

definition getContact :: "platform \<Rightarrow> transport \<Rightarrow> jsval \<Rightarrow> outcome" where
  "getContact P ax contactId =
     (case ToString P contactId of
        Inl e \<Rightarrow> (Inl e, [])
      | Inr c \<Rightarrow> send P ax (GET (''/contacts/'' @ c) []))"

definition getAsyncOperation :: "platform \<Rightarrow> transport \<Rightarrow> jsval \<Rightarrow> outcome" where
  "getAsyncOperation P ax operationId =
     (case ToString P operationId of
        Inl e \<Rightarrow> (Inl e, [])
      | Inr i \<Rightarrow> send P ax (GET (''/operations/'' @ i) []))"


section \<open>The request handlers\<close>

text \<open>
  Each handler is a function of the request's parameters; it returns what the handler
  returns or throws, and the requests made upstream. The lines written to the console
  are not part of the model.
\<close>

subsection \<open>\<^verbatim>\<open>ListResourcesRequestSchema\<close>\<close>

definition resource :: "platform \<Rightarrow> jsval \<Rightarrow> error + jsval" where
  "resource P domain =
     (case js_get domain ''name'' of
        Inl e \<Rightarrow> Inl e
      | Inr name \<Rightarrow>
          (case ToString P name of
             Inl e \<Rightarrow> Inl e
           | Inr n \<Rightarrow>
               (case ToString P (opt_get domain ''status'') of
                  Inl e \<Rightarrow> Inl e
                | Inr s \<Rightarrow>
                    (case ToString P (opt_get domain ''expiresAt'') of
                       Inl e \<Rightarrow> Inl e
                     | Inr x \<Rightarrow>
                         Inr (Obj [(''uri'', Str (''spaceship://domains/'' @ n)),
                                   (''mimeType'', Str ''application/json''),
                                   (''name'', name),
                                   (''description'',
                                    Str (''Domain: '' @ n @ '' (Status: '' @ s @
                                         '', Expires: '' @ x @ '')''))])))))"

text \<open>
  Whatever is thrown inside the \<^verbatim>\<open>try\<close>, by the gateway or by \<^verbatim>\<open>domains.map\<close> on a
  value that is no array, ends in the \<^verbatim>\<open>catch\<close>, which returns the empty list.
\<close>

definition ListResources :: "platform \<Rightarrow> transport \<Rightarrow> jsval \<times> request list" where
  "ListResources P ax =
     (case getDomains P ax Undefined Undefined of
        (Inl e, reqs) \<Rightarrow> (Obj [(''resources'', Arr [])], reqs)
      | (Inr domains, reqs) \<Rightarrow>
          (case domains of
             Arr ds \<Rightarrow>
               (case collect (map (resource P) ds) of
                  Inl e \<Rightarrow> (Obj [(''resources'', Arr [])], reqs)
                | Inr rs \<Rightarrow> (Obj [(''resources'', Arr rs)], reqs))
           | _ \<Rightarrow> (Obj [(''resources'', Arr [])], reqs)))"

subsection \<open>\<^verbatim>\<open>ReadResourceRequestSchema\<close>\<close>

definition unsupported :: "string \<Rightarrow> outcome" where
  "unsupported uri = (Inl (McpError InvalidRequest (''Unsupported resource URI: '' @ uri)), [])"

definition pathParts :: "string \<Rightarrow> string list" where
  "pathParts p = filter (\<lambda>s. s \<noteq> []) (split CHR ''/'' p)"

definition ReadResource :: "platform \<Rightarrow> transport \<Rightarrow> string \<Rightarrow> outcome" where
  "ReadResource P ax uri =
     (case new_URL P uri of
        None \<Rightarrow> (Inl TypeError, [])
      | Some url \<Rightarrow>
          if protocol url = ''spaceship:'' then
            if at_index (pathParts (pathname url)) 0 = Str ''domains'' then
              (let domainName = at_index (pathParts (pathname url)) 1 in
               case getDomainInfo P ax domainName of
                 (Inr domainInfo, reqs) \<Rightarrow>
                   (Inr (Obj [(''contents'',
                              Arr [Obj [(''uri'', Str uri),
                                        (''mimeType'', Str ''application/json''),
                                        (''text'', JSON_stringify P domainInfo)]])]),
                    reqs)
               | (Inl e, reqs) \<Rightarrow>
                   (case ToString P domainName of
                      Inl t \<Rightarrow> (Inl t, reqs)
                    | Inr n \<Rightarrow>
                        (Inl (McpError InvalidRequest (''Domain '' @ n @ '' not found'')), reqs)))
            else unsupported uri
          else unsupported uri)"

subsection \<open>\<^verbatim>\<open>ListToolsRequestSchema\<close>\<close>

definition string_property :: "string \<Rightarrow> string \<Rightarrow> string \<times> jsval" where
  "string_property k d = (k, Obj [(''type'', Str ''string''), (''description'', Str d)])"

definition number_property :: "string \<Rightarrow> string \<Rightarrow> string \<times> jsval" where
  "number_property k d = (k, Obj [(''type'', Str ''number''), (''description'', Str d)])"

definition tool :: "string \<Rightarrow> string \<Rightarrow> (string \<times> jsval) list \<Rightarrow> jsval" where
  "tool n d schema = Obj [(''name'', Str n), (''description'', Str d), (''inputSchema'', Obj schema)]"

definition ListTools :: jsval where
  "ListTools =
     Obj [(''tools'', Arr [
       tool ''get_domains'' ''Get a list of domains''
         [(''type'', Str ''object''),
          (''properties'', Obj [
             number_property ''take'' ''Number of domains to retrieve (default: 10)'',
             number_property ''skip'' ''Number of domains to skip (default: 0)''])],
       tool ''check_domain_availability'' ''Check if a domain is available for registration''
         [(''type'', Str ''object''),
          (''properties'', Obj [string_property ''domain'' ''Domain name to check'']),
          (''required'', Arr [Str ''domain''])],
       tool ''get_domain_info'' ''Get information about a domain''
         [(''type'', Str ''object''),
          (''properties'', Obj [string_property ''domain'' ''Domain name'']),
          (''required'', Arr [Str ''domain''])],
       tool ''register_domain'' ''Register a new domain''
         [(''type'', Str ''object''),
          (''properties'', Obj [
             string_property ''domain'' ''Domain name to register'',
             string_property ''contactId'' ''Contact ID to use for registration'']),
          (''required'', Arr [Str ''domain'', Str ''contactId''])],
       tool ''get_dns_records'' ''Get DNS records for a domain''
         [(''type'', Str ''object''),
          (''properties'', Obj [string_property ''domain'' ''Domain name'']),
          (''required'', Arr [Str ''domain''])],
       tool ''get_contact'' ''Get contact information''
         [(''type'', Str ''object''),
          (''properties'', Obj [string_property ''contactId'' ''Contact ID'']),
          (''required'', Arr [Str ''contactId''])],
       tool ''get_async_operation'' ''Get status of an asynchronous operation''
         [(''type'', Str ''object''),
          (''properties'', Obj [string_property ''operationId'' ''Operation ID'']),
          (''required'', Arr [Str ''operationId''])]])]"

subsection \<open>\<^verbatim>\<open>CallToolRequestSchema\<close>\<close>

text \<open>The result of a tool: one text block with the value as JSON, or the error as it is.\<close>

definition tool_result :: "platform \<Rightarrow> outcome \<Rightarrow> outcome" where
  "tool_result P r =
     (case r of
        (Inl e, reqs) \<Rightarrow> (Inl e, reqs)
      | (Inr v, reqs) \<Rightarrow>
          (Inr (Obj [(''content'',
                     Arr [Obj [(''type'', Str ''text''), (''text'', JSON_stringify P v)]])]),
           reqs))"

definition required :: "string \<Rightarrow> outcome" where
  "required what = (Inl (McpError InvalidParams what), [])"

text \<open>\<^verbatim>\<open>Number(x) || d\<close>\<close>

definition number_or :: "jsnum \<Rightarrow> jsnum \<Rightarrow> jsval" where
  "number_or n d = js_or (Num n) (Num d)"

definition CallTool :: "platform \<Rightarrow> transport \<Rightarrow> string \<Rightarrow> jsval \<Rightarrow> outcome" where
  "CallTool P ax name arguments =
     (if name = ''get_domains'' then
        (case ToNumber P (opt_get arguments ''take'') of
           Inl e \<Rightarrow> (Inl e, [])
         | Inr t \<Rightarrow>
             (case ToNumber P (opt_get arguments ''skip'') of
                Inl e \<Rightarrow> (Inl e, [])
              | Inr s \<Rightarrow>
                  tool_result P (getDomains P ax (number_or t (Fin 10)) (number_or s (Fin 0)))))
      else if name = ''check_domain_availability'' then
        (case ToString P (opt_get arguments ''domain'') of
           Inl e \<Rightarrow> (Inl e, [])
         | Inr domain \<Rightarrow>
             if domain = [] then required ''Domain name is required''
             else tool_result P (checkDomainAvailability P ax (Str domain)))
      else if name = ''get_domain_info'' then
        (case ToString P (opt_get arguments ''domain'') of
           Inl e \<Rightarrow> (Inl e, [])
         | Inr domain \<Rightarrow>
             if domain = [] then required ''Domain name is required''
             else tool_result P (getDomainInfo P ax (Str domain)))
      else if name = ''register_domain'' then
        (case ToString P (opt_get arguments ''domain'') of
           Inl e \<Rightarrow> (Inl e, [])
         | Inr domain \<Rightarrow>
             (case ToString P (opt_get arguments ''contactId'') of
                Inl e \<Rightarrow> (Inl e, [])
              | Inr contactId \<Rightarrow>
                  if domain = [] \<or> contactId = []
                  then required ''Domain name and contact ID are required''
                  else tool_result P (registerDomain P ax (Str domain) (Str contactId))))
      else if name = ''get_dns_records'' then
        (case ToString P (opt_get arguments ''domain'') of
           Inl e \<Rightarrow> (Inl e, [])
         | Inr domain \<Rightarrow>
             if domain = [] then required ''Domain name is required''
             else tool_result P (getDnsRecords P ax (Str domain)))
      else if name = ''get_contact'' then
        (case ToString P (opt_get arguments ''contactId'') of
           Inl e \<Rightarrow> (Inl e, [])
         | Inr contactId \<Rightarrow>
             if contactId = [] then required ''Contact ID is required''
             else tool_result P (getContact P ax (Str contactId)))
      else if name = ''get_async_operation'' then
        (case ToString P (opt_get arguments ''operationId'') of
           Inl e \<Rightarrow> (Inl e, [])
         | Inr operationId \<Rightarrow>
             if operationId = [] then required ''Operation ID is required''
             else tool_result P (getAsyncOperation P ax (Str operationId)))
      else (Inl (McpError MethodNotFound (''Unknown tool: '' @ name)), []))"


section \<open>Reading results, and stand-ins for the examples\<close>

text \<open>The labels of the \<^verbatim>\<open>case\<close> clauses of the tool handler, in their order.\<close>

definition tool_names :: "string list" where
  "tool_names =
     [''get_domains'', ''check_domain_availability'', ''get_domain_info'', ''register_domain'',
      ''get_dns_records'', ''get_contact'', ''get_async_operation'']"

text \<open>
  Reading the catalog that \<open>ListTools\<close> returns: its tools, and of a tool the declared
  type of each property and the \<^verbatim>\<open>required\<close> entry of its schema (\<^verbatim>\<open>undefined\<close> when
  the schema has none).
\<close>

definition tools_of :: "jsval \<Rightarrow> jsval list" where
  "tools_of r = (case opt_get r ''tools'' of Arr ts \<Rightarrow> ts | _ \<Rightarrow> [])"

definition property_types :: "jsval \<Rightarrow> (string \<times> jsval) list" where
  "property_types t =
     (case opt_get (opt_get t ''inputSchema'') ''properties'' of
        Obj ps \<Rightarrow> map (\<lambda>(k, v). (k, opt_get v ''type'')) ps
      | _ \<Rightarrow> [])"

definition required_of :: "jsval \<Rightarrow> jsval" where
  "required_of t = opt_get (opt_get t ''inputSchema'') ''required''"

text \<open>
  For the examples at concrete requests: an HTTP client that answers every request with
  the same body, one that throws the same exception at every request, the Domain of the
  specification's round trip, and a platform. No example below looks into the platform,
  so each holds for every platform.
\<close>

definition responds :: "jsval \<Rightarrow> transport" where
  "responds data = (\<lambda>req. Inr data)"

definition throws :: "transport_error \<Rightarrow> transport" where
  "throws e = (\<lambda>req. Inl e)"

definition example_domain :: jsval where
  "example_domain =
     Obj [(''id'', Str ''d1''), (''name'', Str ''example.com''), (''status'', Str ''active''),
          (''expiresAt'', Str ''2026-01-01''), (''autoRenew'', Bool True)]"

definition stub_platform :: platform where
  "stub_platform =
     \<lparr>StringToNumber = (\<lambda>s. NaN), NumberToString = (\<lambda>n. ''0''), JSON_text = (\<lambda>v. ''null''),
      URL_else = (\<lambda>s r. None), IPv6_host = (\<lambda>h. None)\<rparr>"


text \<open>
  Whether an operation of the gateway did what its \<^verbatim>\<open>catch\<close> block says: it made one
  request, and if the HTTP client threw at that request, it failed with what the block
  makes of the exception.
\<close>

definition fails_as_caught :: "platform \<Rightarrow> transport \<Rightarrow> outcome \<Rightarrow> bool" where
  "fails_as_caught P ax r =
     (case snd r of
        [req] \<Rightarrow> (case ax req of Inl x \<Rightarrow> fst r = Inl (catch_block P x) | Inr data \<Rightarrow> True)
      | _ \<Rightarrow> False)"

text \<open>
  The values on which \<^verbatim>\<open>String\<close> and \<^verbatim>\<open>Number\<close> throw: an object with an own property
  \<^verbatim>\<open>toString\<close>, and an array with such an element.
\<close>

fun unconvertible :: "jsval \<Rightarrow> bool" where
  "unconvertible (Obj kvs) = (''toString'' \<in> fst ` set kvs)"
| "unconvertible (Arr xs) = list_ex (\<lambda>x. x \<noteq> Undefined \<and> x \<noteq> Null \<and> unconvertible x) xs"
| "unconvertible v = False"


text \<open>The characters of a host name: letters, digits, hyphen and dot.\<close>

definition plain :: "char \<Rightarrow> bool" where
  "plain c = (ascii_alpha c \<or> ascii_digit c \<or> c = CHR ''-'' \<or> c = CHR ''.'')"


section \<open>Lemmas\<close>

lemmas url_eval =
  new_URL_def parse_scheme_def strip_input_def c0_or_space_def tab_or_newline_def
  ascii_alpha_def ascii_digit_def scheme_char_def ascii_lower_def special_scheme_def
  parse_hierarchical_def parse_authority_def parse_opaque_host_def authority_end_def
  query_or_fragment_def forbidden_host_code_point_def percent_encode_def c0_control_set_def
  parse_path_def path_set_def single_dot_def double_dot_def valid_port_def decimal_def
  percent_byte_def hex_digit_def

subsection \<open>Conversions\<close>

lemma collect_Inl: "collect xs = Inl e \<Longrightarrow> Inl e \<in> set xs"
  by (induction xs) (auto split: sum.splits)

lemma collect_Inr: "(\<exists>ys. collect xs = Inr ys) \<longleftrightarrow> (\<forall>x \<in> set xs. \<exists>y. x = Inr y)"
  by (induction xs) (auto split: sum.splits)

lemma ToString_error: "ToString P v = Inl e \<Longrightarrow> e = TypeError"
proof (induction P v arbitrary: e rule: ToString.induct)
  case (6 P xs)
  then obtain x where "x \<in> set xs" and "x \<noteq> Undefined" and "x \<noteq> Null"
    and "ToString P x = Inl e"
    by (auto split: sum.splits if_splits dest!: collect_Inl)
  then show ?case using "6.IH" by blast
qed (auto split: if_splits)

lemma ToNumber_error: "ToNumber P v = Inl e \<Longrightarrow> e = TypeError"
  by (cases v) (auto simp del: ToString.simps split: sum.splits dest: ToString_error)

lemma ToString_throws_iff: "ToString P v = Inl TypeError \<longleftrightarrow> unconvertible v"
proof (induction v)
  case (Arr xs)
  have "ToString P (Arr xs) = Inl TypeError \<longleftrightarrow> (\<exists>e. ToString P (Arr xs) = Inl e)"
    using ToString_error by blast
  also have "\<dots> \<longleftrightarrow>
      \<not> (\<exists>ys. collect (map (\<lambda>x. if x = Undefined \<or> x = Null then Inr []
                                   else ToString P x) xs) = Inr ys)"
    by (auto split: sum.splits)
  also have "\<dots> \<longleftrightarrow>
      (\<exists>x \<in> set xs. x \<noteq> Undefined \<and> x \<noteq> Null \<and> (\<forall>y. ToString P x \<noteq> Inr y))"
    unfolding collect_Inr by auto
  also have "\<dots> \<longleftrightarrow> (\<exists>x \<in> set xs. x \<noteq> Undefined \<and> x \<noteq> Null \<and> unconvertible x)"
  proof -
    have "(\<forall>y. ToString P x \<noteq> Inr y) \<longleftrightarrow> unconvertible x" if "x \<in> set xs" for x
      using Arr [OF that] by (cases "ToString P x") (auto dest: ToString_error)
    then show ?thesis by blast
  qed
  finally show ?case by (simp add: list_ex_iff)
qed auto

lemma ToNumber_throws_iff: "ToNumber P v = Inl TypeError \<longleftrightarrow> unconvertible v"
proof (cases v)
  case (Arr xs)
  then show ?thesis
    using ToString_throws_iff [of P v]
    by (auto simp del: ToString.simps unconvertible.simps split: sum.splits dest: ToString_error)
next
  case (Obj kvs)
  then show ?thesis
    using ToString_throws_iff [of P v]
    by (auto simp del: ToString.simps unconvertible.simps split: sum.splits dest: ToString_error)
qed auto

lemma ToNumber_returns: "\<not> unconvertible v \<Longrightarrow> \<exists>n. ToNumber P v = Inr n"
  using ToNumber_throws_iff [of P v] ToNumber_error [of P v]
  by (cases "ToNumber P v") auto

lemma unconvertible_truthy: "unconvertible v \<Longrightarrow> truthy v"
  by (cases v) auto

lemma ToString_returns: "\<not> unconvertible v \<Longrightarrow> \<exists>s. ToString P v = Inr s"
  using ToString_throws_iff [of P v] ToString_error [of P v]
  by (cases "ToString P v") auto


lemma number_or_eq: "number_or n d = Num (if n = NaN \<or> n = Fin 0 then d else n)"
  by (simp add: number_or_def js_or_def)

subsection \<open>The gateway and the tool results\<close>

lemma js_get_error: "js_get v k = Inl e \<Longrightarrow> e = TypeError"
  by (cases v) auto

lemma catch_block_cases:
  "catch_block P x = TypeError \<or> (\<exists>m. catch_block P x = McpError InternalError m) \<or>
   (\<exists>y. catch_block P x = Rethrown y)"
  by (cases x) (auto simp: catch_block_def split: sum.splits dest: ToString_error)

lemma getDomains_error:
  "fst (getDomains P ax t s) = Inl e \<Longrightarrow>
     e = TypeError \<or> (\<exists>m. e = McpError InternalError m) \<or> (\<exists>y. e = Rethrown y)"
  using catch_block_cases [of P]
  by (auto simp: getDomains_def send_def split: sum.splits dest: js_get_error)

lemma getDomains_requests:
  "snd (getDomains P ax t s) =
     [GET ''/domains'' [(''take'', default_param t (Num (Fin 10))),
                        (''skip'', default_param s (Num (Fin 0)))]]"
  by (simp add: getDomains_def send_def split: sum.splits)

lemma fails_as_caught_send: "fails_as_caught P ax (send P ax req)"
  by (simp add: fails_as_caught_def send_def split: sum.splits)

lemma tool_result_fst_Inl: "fst (tool_result P r) = Inl e \<longleftrightarrow> fst r = Inl e"
  by (cases r) (auto simp: tool_result_def split: sum.splits)

lemma tool_result_snd: "snd (tool_result P r) = snd r"
  by (cases r) (auto simp: tool_result_def split: sum.splits)

subsection \<open>Splitting a path\<close>

lemma split_no_sep: "sep \<notin> set s \<Longrightarrow> split sep s = [s]"
  by (induction s) auto

lemma split_append: "sep \<notin> set s \<Longrightarrow> split sep (s @ sep # t) = s # split sep t"
  by (induction s) auto

lemma pathParts_Cons_sep: "pathParts (CHR ''/'' # t) = pathParts t"
  by (simp add: pathParts_def)

lemma pathParts_segment:
  "CHR ''/'' \<notin> set s \<Longrightarrow> s \<noteq> [] \<Longrightarrow> pathParts (s @ CHR ''/'' # t) = s # pathParts t"
  by (simp add: pathParts_def split_append)

lemma pathParts_last: "CHR ''/'' \<notin> set s \<Longrightarrow> s \<noteq> [] \<Longrightarrow> pathParts s = [s]"
  by (simp add: pathParts_def split_no_sep)

lemma pathParts_domains:
  assumes "name \<noteq> []" and "CHR ''/'' \<notin> set name" and "rest = [] \<or> hd rest = CHR ''/''"
  shows "\<exists>more. pathParts (''/domains/'' @ name @ rest) = ''domains'' # name # more"
proof -
  have a: "pathParts (''/domains/'' @ name @ rest) = ''domains'' # pathParts (name @ rest)"
    using pathParts_segment [of "''domains''" "name @ rest"] by (simp add: pathParts_Cons_sep)
  show ?thesis
  proof (cases rest)
    case Nil
    then show ?thesis using a assms by (simp add: pathParts_last)
  next
    case (Cons c cs)
    then have "c = CHR ''/''" using assms by simp
    then show ?thesis using a assms Cons by (simp add: pathParts_segment)
  qed
qed

subsection \<open>Parsing a URL of plain characters\<close>

lemma plain_simps:
  assumes "plain c"
  shows "\<not> c0_or_space c" and "\<not> tab_or_newline c" and "\<not> authority_end c"
    and "\<not> query_or_fragment c" and "\<not> forbidden_host_code_point c"
    and "\<not> c0_control_set c" and "\<not> path_set c"
    and "c \<noteq> CHR ''@''" and "c \<noteq> CHR '':''" and "c \<noteq> CHR ''[''" and "c \<noteq> CHR ''/''"
  using assms
  by (auto simp: plain_def ascii_alpha_def ascii_digit_def c0_or_space_def tab_or_newline_def
      authority_end_def query_or_fragment_def forbidden_host_code_point_def c0_control_set_def
      path_set_def Let_def)

lemma percent_encode_id: "\<forall>c \<in> set s. \<not> enc c \<Longrightarrow> percent_encode enc s = s"
  by (induction s) (auto simp: percent_encode_def)

lemma split_port_plain: "\<forall>c \<in> set h. c \<noteq> CHR '':'' \<Longrightarrow> split_port b h = (h, None)"
  by (induction h arbitrary: b) auto

lemma parse_authority_plain:
  assumes "h \<noteq> []" and "\<forall>c \<in> set h. plain c"
  shows "parse_authority P h = Some h"
proof -
  have at: "CHR ''@'' \<notin> set h" using assms(2) plain_simps(8) by blast
  then have tw: "takeWhile (\<lambda>c. c \<noteq> CHR ''@'') (rev h) = rev h"
    by (auto simp: takeWhile_eq_all_conv)
  have sp: "split_port False h = (h, None)"
    using assms(2) plain_simps(9) by (intro split_port_plain) blast
  obtain c cs where h: "h = c # cs" using assms(1) by (cases h) auto
  have c: "c \<noteq> CHR ''[''" using assms(2) h plain_simps(10) by auto
  have nf: "\<not> list_ex forbidden_host_code_point h"
    using assms(2) plain_simps(5) by (auto simp: list_ex_iff)
  have pe: "percent_encode c0_control_set h = h"
    using assms(2) plain_simps(6) by (intro percent_encode_id) blast
  have po: "parse_opaque_host P h = Some h"
    using c nf pe unfolding h parse_opaque_host_def by simp
  show ?thesis
    unfolding parse_authority_def Let_def tw rev_rev_ident
    using at sp po assms(1) by simp
qed

lemma parse_path_plain:
  assumes "\<forall>c \<in> set n. plain c" and "\<not> single_dot n" and "\<not> double_dot n"
  shows "parse_path n = CHR ''/'' # n"
proof -
  have "\<forall>c \<in> set n. \<not> query_or_fragment c" using assms(1) plain_simps(4) by blast
  then have tw: "takeWhile (\<lambda>c. \<not> query_or_fragment c) n = n"
    by (simp only: takeWhile_eq_all_conv)
  have "CHR ''/'' \<notin> set n" using assms(1) plain_simps(11) by blast
  then have sp: "split CHR ''/'' n = [n]" by (rule split_no_sep)
  have pe: "percent_encode path_set n = n"
    using assms(1) plain_simps(7) by (intro percent_encode_id) blast
  show ?thesis
    unfolding parse_path_def tw sp using pe assms(2,3) by (simp add: Let_def)
qed

lemma parse_path_domains:
  assumes "\<forall>c \<in> set n. plain c" and "\<not> single_dot n" and "\<not> double_dot n"
  shows "parse_path (''domains/'' @ n) = ''/domains/'' @ n"
proof -
  have "\<forall>c \<in> set (''domains/'' @ n). \<not> query_or_fragment c"
    using assms(1) plain_simps(4) by (auto simp: query_or_fragment_def)
  then have tw: "takeWhile (\<lambda>c. \<not> query_or_fragment c) (''domains/'' @ n) = ''domains/'' @ n"
    by (simp only: takeWhile_eq_all_conv)
  have ns: "CHR ''/'' \<notin> set n" using assms(1) plain_simps(11) by blast
  have sp: "split CHR ''/'' (''domains/'' @ n) = [''domains'', n]"
    using split_append [of "CHR ''/''" "''domains''" n] split_no_sep [OF ns] by simp
  have pe: "percent_encode path_set n = n"
    using assms(1) plain_simps(7) by (intro percent_encode_id) blast
  have pd: "percent_encode path_set ''domains'' = ''domains''"
    by (simp add: percent_encode_def path_set_def c0_control_set_def)
  have dd: "\<not> double_dot ''domains''" "\<not> single_dot ''domains''"
    by (simp_all add: double_dot_def single_dot_def ascii_lower_def)
  show ?thesis
    unfolding parse_path_def tw sp using pe pd dd assms(2,3) by (simp add: Let_def)
qed

lemma strip_input_plain:
  assumes "\<forall>c \<in> set h. plain c" and "\<forall>c \<in> set p. plain c \<or> c = CHR ''/''"
  shows "strip_input (''spaceship://'' @ h @ CHR ''/'' # p) = ''spaceship://'' @ h @ CHR ''/'' # p"
proof -
  let ?u = "''spaceship://'' @ h @ CHR ''/'' # p"
  have a: "dropWhile c0_or_space ?u = ?u" by (simp add: c0_or_space_def)
  have slash: "\<not> c0_or_space CHR ''/''" by (simp add: c0_or_space_def)
  have lu: "hd (rev ?u) = last (CHR ''/'' # p)"
    by (simp only: hd_rev) simp
  have "\<not> c0_or_space (last (CHR ''/'' # p))"
  proof (cases "p = []")
    case True
    then show ?thesis using slash by simp
  next
    case False
    then have "last p \<in> set p" by simp
    then have "plain (last p) \<or> last p = CHR ''/''" using assms(2) by blast
    then have "\<not> c0_or_space (last p)" using plain_simps(1) slash by auto
    then show ?thesis using False by simp
  qed
  then have "\<not> c0_or_space (hd (rev ?u))" unfolding lu by assumption
  moreover have "rev ?u \<noteq> []" by simp
  ultimately have b: "dropWhile c0_or_space (rev ?u) = rev ?u"
    by (cases "rev ?u") simp_all
  have c: "\<forall>c \<in> set ?u. \<not> tab_or_newline c"
    using assms plain_simps(2) by (auto simp: tab_or_newline_def)
  show ?thesis
    unfolding strip_input_def a b using c by (simp only: rev_rev_ident filter_id_conv)
qed

lemma new_URL_plain:
  assumes "h \<noteq> []" and "\<forall>c \<in> set h. plain c" and "\<forall>c \<in> set p. plain c \<or> c = CHR ''/''"
  shows "new_URL P (''spaceship://'' @ h @ CHR ''/'' # p) =
           Some \<lparr>protocol = ''spaceship:'', hostname = h, pathname = parse_path p\<rparr>"
proof -
  have ae: "\<forall>c \<in> set h. \<not> authority_end c" using assms(2) plain_simps(3) by blast
  have "takeWhile (\<lambda>c. \<not> authority_end c) (h @ CHR ''/'' # p) =
          takeWhile (\<lambda>c. \<not> authority_end c) h"
    by (rule takeWhile_tail) (simp add: authority_end_def)
  moreover have "takeWhile (\<lambda>c. \<not> authority_end c) h = h"
    using ae by (simp only: takeWhile_eq_all_conv)
  ultimately have tw: "takeWhile (\<lambda>c. \<not> authority_end c) (h @ CHR ''/'' # p) = h"
    by simp
  have dw: "dropWhile (\<lambda>c. \<not> authority_end c) (h @ CHR ''/'' # p) = CHR ''/'' # p"
    using ae by (simp add: dropWhile_append2 authority_end_def)
  have sch: "parse_scheme (''spaceship://'' @ h @ CHR ''/'' # p) =
        Some (''spaceship'', ''//'' @ h @ CHR ''/'' # p)"
    by (simp add: parse_scheme_def ascii_alpha_def scheme_char_def ascii_digit_def
        ascii_lower_def)
  have hier: "parse_hierarchical P ''spaceship'' (''/'' @ h @ CHR ''/'' # p) =
      Some \<lparr>protocol = ''spaceship:'', hostname = h, pathname = parse_path p\<rparr>"
    using parse_authority_plain [OF assms(1,2), of P] tw dw
    by (simp add: parse_hierarchical_def)
  show ?thesis
    unfolding new_URL_def strip_input_plain [OF assms(2,3)] sch
    using hier by (simp add: special_scheme_def)
qed


section \<open>The tool catalog and the dispatch on the tool's name\<close>

text \<open>
  C7. A call that names none of the seven tools of the \<^verbatim>\<open>switch\<close> reaches its
  \<^verbatim>\<open>default\<close> clause: the handler throws an \<open>McpError\<close> of code \<open>MethodNotFound\<close> whose
  message ends in the name it was given, and no request goes upstream.
\<close>

theorem unknown_tool:
  assumes "name \<notin> set tool_names"
  shows "CallTool P ax name arguments =
           (Inl (McpError MethodNotFound (''Unknown tool: '' @ name)), [])"
  using assms by (simp add: CallTool_def tool_names_def)

theorem unknown_tool_witness:
  "''delete_domain'' \<notin> set tool_names \<and>
   CallTool stub_platform (responds Null) ''delete_domain''
       (Obj [(''domain'', Str ''example.com'')]) =
     (Inl (McpError MethodNotFound ''Unknown tool: delete_domain''), [])"
proof -
  have h: "''delete_domain'' \<notin> set tool_names" by (simp add: tool_names_def)
  show ?thesis using h unknown_tool [OF h] by simp
qed

text \<open>
  C8. The handler of a list-tools request takes nothing from the request, so the catalog
  is the constant \<open>ListTools\<close>: seven tools, named as the clauses of the \<^verbatim>\<open>switch\<close> are
  and in that order, no name twice. \<^verbatim>\<open>get_domains\<close> declares the numbers \<^verbatim>\<open>take\<close> and
  \<^verbatim>\<open>skip\<close> and requires nothing; every other tool declares strings and requires each
  of them.
\<close>

theorem tool_catalog:
  "map (\<lambda>t. opt_get t ''name'') (tools_of ListTools) = map Str tool_names \<and>
   length (tools_of ListTools) = 7 \<and>
   distinct (map (\<lambda>t. opt_get t ''name'') (tools_of ListTools)) \<and>
   map property_types (tools_of ListTools) =
     [[(''take'', Str ''number''), (''skip'', Str ''number'')],
      [(''domain'', Str ''string'')],
      [(''domain'', Str ''string'')],
      [(''domain'', Str ''string''), (''contactId'', Str ''string'')],
      [(''domain'', Str ''string'')],
      [(''contactId'', Str ''string'')],
      [(''operationId'', Str ''string'')]] \<and>
   map required_of (tools_of ListTools) =
     [Undefined,
      Arr [Str ''domain''],
      Arr [Str ''domain''],
      Arr [Str ''domain'', Str ''contactId''],
      Arr [Str ''domain''],
      Arr [Str ''contactId''],
      Arr [Str ''operationId'']]"
  by (simp add: ListTools_def tools_of_def tool_def property_types_def required_of_def
      tool_names_def string_property_def number_property_def)


section \<open>Required arguments\<close>

text \<open>
  C1. A tool call that leaves out a required argument is not stopped. \<^verbatim>\<open>String\<close> turns the
  missing value into the text \<^verbatim>\<open>undefined\<close>, which is not empty, so the test that guards
  the upstream call lets it through: for each of the six tools with a required argument
  the handler sends one request upstream, with \<^verbatim>\<open>undefined\<close> where the argument belongs.
\<close>

theorem omitted_argument_goes_upstream:
  "snd (CallTool P ax ''check_domain_availability'' Undefined) =
     [GET ''/domains/availability/undefined'' []] \<and>
   snd (CallTool P ax ''check_domain_availability'' (Obj [])) =
     [GET ''/domains/availability/undefined'' []] \<and>
   snd (CallTool P ax ''get_domain_info'' (Obj [])) = [GET ''/domains/undefined'' []] \<and>
   snd (CallTool P ax ''register_domain'' (Obj [(''domain'', Str ''example.com'')])) =
     [POST ''/domains''
        (Obj [(''domain'', Str ''example.com''), (''contactId'', Str ''undefined'')])] \<and>
   snd (CallTool P ax ''get_dns_records'' (Obj [])) = [GET ''/domains/undefined/dns'' []] \<and>
   snd (CallTool P ax ''get_contact'' (Obj [])) = [GET ''/contacts/undefined'' []] \<and>
   snd (CallTool P ax ''get_async_operation'' (Obj [])) = [GET ''/operations/undefined'' []]"
  by (simp add: CallTool_def checkDomainAvailability_def getDomainInfo_def registerDomain_def
      getDnsRecords_def getContact_def getAsyncOperation_def send_def tool_result_def
      split: sum.splits prod.splits)

text \<open>
  What the guard does stop is the argument whose text is empty, the empty string itself
  or a value that \<^verbatim>\<open>String\<close> turns into it: the handler throws an \<open>McpError\<close> of code
  \<open>InvalidParams\<close> and sends nothing upstream.
\<close>

theorem empty_argument_invalid_params:
  "(ToString P (opt_get arguments ''domain'') = Inr [] \<longrightarrow>
      CallTool P ax ''check_domain_availability'' arguments =
        (Inl (McpError InvalidParams ''Domain name is required''), []) \<and>
      CallTool P ax ''get_domain_info'' arguments =
        (Inl (McpError InvalidParams ''Domain name is required''), []) \<and>
      CallTool P ax ''get_dns_records'' arguments =
        (Inl (McpError InvalidParams ''Domain name is required''), [])) \<and>
   (ToString P (opt_get arguments ''contactId'') = Inr [] \<longrightarrow>
      CallTool P ax ''get_contact'' arguments =
        (Inl (McpError InvalidParams ''Contact ID is required''), [])) \<and>
   (ToString P (opt_get arguments ''operationId'') = Inr [] \<longrightarrow>
      CallTool P ax ''get_async_operation'' arguments =
        (Inl (McpError InvalidParams ''Operation ID is required''), [])) \<and>
   (ToString P (opt_get arguments ''domain'') = Inr d \<and>
    ToString P (opt_get arguments ''contactId'') = Inr c \<and> (d = [] \<or> c = []) \<longrightarrow>
      CallTool P ax ''register_domain'' arguments =
        (Inl (McpError InvalidParams ''Domain name and contact ID are required''), []))"
  by (simp add: CallTool_def required_def)

theorem empty_argument_invalid_params_witness:
  "ToString stub_platform (opt_get (Obj [(''domain'', Str '''')]) ''domain'') = Inr [] \<and>
   CallTool stub_platform (responds Null) ''check_domain_availability'' (Obj [(''domain'', Str '''')]) =
     (Inl (McpError InvalidParams ''Domain name is required''), []) \<and>
   CallTool stub_platform (responds Null) ''register_domain''
       (Obj [(''domain'', Str ''example.com''), (''contactId'', Str '''')]) =
     (Inl (McpError InvalidParams ''Domain name and contact ID are required''), [])"
  using empty_argument_invalid_params
      [of stub_platform "Obj [(''domain'', Str '''')]" "responds Null" "[]" "''undefined''"]
    empty_argument_invalid_params
      [of stub_platform "Obj [(''domain'', Str ''example.com''), (''contactId'', Str '''')]"
        "responds Null" "''example.com''" "[]"]
  by simp

text \<open>
  A \<^verbatim>\<open>register_domain\<close> call with both arguments makes one request, the POST of the two
  strings, and returns the body of the answer, the operation's identifier, as its one
  block of text.
\<close>

theorem register_domain_result:
  "d \<noteq> [] \<and> c \<noteq> [] \<and>
   ax (POST ''/domains'' (Obj [(''domain'', Str d), (''contactId'', Str c)])) = Inr v \<longrightarrow>
     CallTool P ax ''register_domain'' (Obj [(''domain'', Str d), (''contactId'', Str c)]) =
       (Inr (Obj [(''content'',
                  Arr [Obj [(''type'', Str ''text''), (''text'', JSON_stringify P v)]])]),
        [POST ''/domains'' (Obj [(''domain'', Str d), (''contactId'', Str c)])])"
  by (simp add: CallTool_def registerDomain_def send_def tool_result_def)

theorem register_domain_result_witness:
  "CallTool stub_platform (responds (Obj [(''operationId'', Str ''op-42'')])) ''register_domain''
       (Obj [(''domain'', Str ''example.com''), (''contactId'', Str ''c1'')]) =
     (Inr (Obj [(''content'',
                Arr [Obj [(''type'', Str ''text''),
                          (''text'', JSON_stringify stub_platform
                                       (Obj [(''operationId'', Str ''op-42'')]))]])]),
      [POST ''/domains'' (Obj [(''domain'', Str ''example.com''), (''contactId'', Str ''c1'')])])"
  using register_domain_result
      [of "''example.com''" "''c1''" "responds (Obj [(''operationId'', Str ''op-42'')])"
        "Obj [(''operationId'', Str ''op-42'')]" stub_platform]
  by (simp add: responds_def)


section \<open>The pagination of \<^verbatim>\<open>get_domains\<close>\<close>

text \<open>
  C4. A \<^verbatim>\<open>take\<close> of 0 does not reach the upstream call: \<^verbatim>\<open>Number(0) || 10\<close> is 10, so
  the request asks for ten domains. The gateway's own default, a default parameter, would
  have left the 0 alone.
\<close>

theorem take_zero_is_replaced:
  "snd (CallTool P ax ''get_domains'' (Obj [(''take'', Num (Fin 0)), (''skip'', Num (Fin 5))])) =
     [GET ''/domains'' [(''take'', Num (Fin 10)), (''skip'', Num (Fin 5))]] \<and>
   snd (getDomains P ax (Num (Fin 0)) (Num (Fin 5))) =
     [GET ''/domains'' [(''take'', Num (Fin 0)), (''skip'', Num (Fin 5))]]"
  by (simp add: CallTool_def number_or_def js_or_def getDomains_def send_def default_param_def
      tool_result_def split: sum.splits prod.splits)

text \<open>
  Every other number goes through as it is: a \<^verbatim>\<open>take\<close> that is a finite number other
  than 0, with a \<^verbatim>\<open>skip\<close> that is any finite number, is what the request carries; and a
  call with no arguments asks for 10 and 0.
\<close>

theorem nonzero_take_is_forwarded:
  "(opt_get arguments ''take'' = Num (Fin a) \<and> a \<noteq> 0 \<and> opt_get arguments ''skip'' = Num (Fin b) \<longrightarrow>
      snd (CallTool P ax ''get_domains'' arguments) =
        [GET ''/domains'' [(''take'', Num (Fin a)), (''skip'', Num (Fin b))]]) \<and>
   snd (CallTool P ax ''get_domains'' Undefined) =
     [GET ''/domains'' [(''take'', Num (Fin 10)), (''skip'', Num (Fin 0))]] \<and>
   snd (CallTool P ax ''get_domains'' (Obj [])) =
     [GET ''/domains'' [(''take'', Num (Fin 10)), (''skip'', Num (Fin 0))]]"
  by (simp add: CallTool_def number_or_eq tool_result_snd getDomains_requests default_param_def)

theorem nonzero_take_is_forwarded_witness:
  "opt_get (Obj [(''take'', Num (Fin 25)), (''skip'', Num (Fin 50))]) ''take'' = Num (Fin 25) \<and>
   snd (CallTool stub_platform (responds Null) ''get_domains''
          (Obj [(''take'', Num (Fin 25)), (''skip'', Num (Fin 50))])) =
     [GET ''/domains'' [(''take'', Num (Fin 25)), (''skip'', Num (Fin 50))]]"
  using nonzero_take_is_forwarded
      [of "Obj [(''take'', Num (Fin 25)), (''skip'', Num (Fin 50))]" 25 50 stub_platform
        "responds Null"]
  by simp

text \<open>
  C9. Whatever the argument bag holds, a \<^verbatim>\<open>get_domains\<close> call never fails with an
  \<open>InvalidParams\<close> error. When \<^verbatim>\<open>Number\<close> returns for \<^verbatim>\<open>take\<close> and for \<^verbatim>\<open>skip\<close>, the
  handler makes the one upstream request, with 10 for a \<^verbatim>\<open>take\<close> and 0 for a \<^verbatim>\<open>skip\<close>
  that is \<open>NaN\<close> or 0 and with the number itself otherwise. \<^verbatim>\<open>Number\<close> returns for every
  value but an object with an own property \<^verbatim>\<open>toString\<close> or an array holding one; on such
  a value it throws, and the handler fails with that TypeError before any request.
\<close>

theorem get_domains_never_invalid_params:
  "(\<forall>m. fst (CallTool P ax ''get_domains'' arguments) \<noteq> Inl (McpError InvalidParams m)) \<and>
   (\<not> unconvertible (opt_get arguments ''take'') \<and> \<not> unconvertible (opt_get arguments ''skip'') \<longrightarrow>
      (\<exists>t s. ToNumber P (opt_get arguments ''take'') = Inr t \<and>
             ToNumber P (opt_get arguments ''skip'') = Inr s \<and>
             snd (CallTool P ax ''get_domains'' arguments) =
               [GET ''/domains''
                  [(''take'', Num (if t = NaN \<or> t = Fin 0 then Fin 10 else t)),
                   (''skip'', Num (if s = NaN \<or> s = Fin 0 then Fin 0 else s))]])) \<and>
   (unconvertible (opt_get arguments ''take'') \<or> unconvertible (opt_get arguments ''skip'') \<longrightarrow>
      CallTool P ax ''get_domains'' arguments = (Inl TypeError, []))"
proof -
  have a: "fst (CallTool P ax ''get_domains'' arguments) \<noteq> Inl (McpError InvalidParams m)" for m
  proof
    assume h: "fst (CallTool P ax ''get_domains'' arguments) = Inl (McpError InvalidParams m)"
    show False
    proof (cases "ToNumber P (opt_get arguments ''take'')")
      case (Inl e)
      then show False using h ToNumber_error [OF Inl] by (simp add: CallTool_def)
    next
      case t: (Inr t)
      show False
      proof (cases "ToNumber P (opt_get arguments ''skip'')")
        case (Inl e)
        then show False using h t ToNumber_error [OF Inl] by (simp add: CallTool_def)
      next
        case s: (Inr s)
        have "fst (getDomains P ax (number_or t (Fin 10)) (number_or s (Fin 0))) =
                Inl (McpError InvalidParams m)"
          using h t s by (simp add: CallTool_def tool_result_fst_Inl)
        then show False using getDomains_error by fastforce
      qed
    qed
  qed
  have b: "\<exists>t s. ToNumber P (opt_get arguments ''take'') = Inr t \<and>
             ToNumber P (opt_get arguments ''skip'') = Inr s \<and>
             snd (CallTool P ax ''get_domains'' arguments) =
               [GET ''/domains''
                  [(''take'', Num (if t = NaN \<or> t = Fin 0 then Fin 10 else t)),
                   (''skip'', Num (if s = NaN \<or> s = Fin 0 then Fin 0 else s))]]"
    if nt: "\<not> unconvertible (opt_get arguments ''take'')"
      and ns: "\<not> unconvertible (opt_get arguments ''skip'')"
  proof -
    obtain t where t: "ToNumber P (opt_get arguments ''take'') = Inr t"
      using ToNumber_returns [OF nt] by blast
    obtain s where s: "ToNumber P (opt_get arguments ''skip'') = Inr s"
      using ToNumber_returns [OF ns] by blast
    have "snd (CallTool P ax ''get_domains'' arguments) =
               [GET ''/domains''
                  [(''take'', Num (if t = NaN \<or> t = Fin 0 then Fin 10 else t)),
                   (''skip'', Num (if s = NaN \<or> s = Fin 0 then Fin 0 else s))]]"
      using t s
      by (simp add: CallTool_def tool_result_snd getDomains_requests number_or_eq
          default_param_def)
    then show ?thesis using t s by blast
  qed
  have c: "CallTool P ax ''get_domains'' arguments = (Inl TypeError, [])"
    if un: "unconvertible (opt_get arguments ''take'') \<or> unconvertible (opt_get arguments ''skip'')"
  proof (cases "unconvertible (opt_get arguments ''take'')")
    case True
    then have "ToNumber P (opt_get arguments ''take'') = Inl TypeError"
      by (simp add: ToNumber_throws_iff)
    then show ?thesis by (simp add: CallTool_def)
  next
    case False
    then obtain t where t: "ToNumber P (opt_get arguments ''take'') = Inr t"
      using ToNumber_returns by blast
    have "ToNumber P (opt_get arguments ''skip'') = Inl TypeError"
      using un False by (simp add: ToNumber_throws_iff)
    then show ?thesis using t by (simp add: CallTool_def)
  qed
  show ?thesis using a b c by blast
qed

theorem get_domains_never_invalid_params_witness:
  "\<not> unconvertible (opt_get (Obj [(''take'', Null), (''skip'', Num (Fin (- 3)))]) ''take'') \<and>
   \<not> unconvertible (opt_get (Obj [(''take'', Null), (''skip'', Num (Fin (- 3)))]) ''skip'') \<and>
   snd (CallTool stub_platform (responds Null) ''get_domains''
          (Obj [(''take'', Null), (''skip'', Num (Fin (- 3)))])) =
     [GET ''/domains'' [(''take'', Num (Fin 10)), (''skip'', Num (Fin (- 3)))]] \<and>
   unconvertible (opt_get (Obj [(''take'', Obj [(''toString'', Null)])]) ''take'') \<and>
   CallTool stub_platform (responds Null) ''get_domains''
       (Obj [(''take'', Obj [(''toString'', Null)])]) = (Inl TypeError, [])"
  using get_domains_never_invalid_params
      [of stub_platform "responds Null" "Obj [(''take'', Null), (''skip'', Num (Fin (- 3)))]"]
    get_domains_never_invalid_params
      [of stub_platform "responds Null" "Obj [(''take'', Obj [(''toString'', Null)])]"]
  by simp

text \<open>
  As C9 is worded, for every argument bag whatsoever, it fails on a \<^verbatim>\<open>take\<close> that is an
  object with a property \<^verbatim>\<open>toString\<close>: the handler throws the TypeError of \<^verbatim>\<open>Number\<close>
  and never reaches the upstream call.
\<close>

theorem get_domains_coercion_throws:
  "CallTool stub_platform (responds (Obj [(''domains'', Arr [])])) ''get_domains''
     (Obj [(''take'', Obj [(''toString'', Null)])]) = (Inl TypeError, [])"
  by (simp add: CallTool_def)


section \<open>The errors of the gateway\<close>

text \<open>
  C5. Each of the eight operations of the gateway makes one request, and when the HTTP
  client throws at it, the operation fails with what the \<^verbatim>\<open>catch\<close> block makes of the
  exception. For an AxiosError the block takes the \<^verbatim>\<open>message\<close> of the upstream response
  body when that is truthy, and the message of the AxiosError itself when the body has
  none or a falsy one, and writes it into a template. When that value can be converted to
  text, which only an object with an own property \<^verbatim>\<open>toString\<close> or an array holding one
  cannot, the block throws an \<open>McpError\<close> of code \<open>InternalError\<close> whose message is the
  text behind a fixed prefix: the upstream message itself when it is a string that is not
  empty. When it cannot, the TypeError of the conversion leaves the gateway. An exception
  that is no AxiosError is thrown again as it is, so it leaves the gateway in its own
  class.
\<close>

theorem gateway_error_mapping:
  "list_all (fails_as_caught P ax)
     [getDomains P ax take' skip',
      checkDomainAvailability P ax (Str domain),
      getDomainInfo P ax (Str domain),
      registerDomain P ax (Str domain) (Str contactId),
      getDnsRecords P ax (Str domain),
      updateDnsRecords P ax (Str domain) records,
      getContact P ax (Str contactId),
      getAsyncOperation P ax (Str operationId)] \<and>
   (\<forall>response message.
      (\<not> unconvertible (opt_get (opt_get response ''data'') ''message'') \<longrightarrow>
         (\<exists>s. ToString P (js_or (opt_get (opt_get response ''data'') ''message'') (Str message)) =
                 Inr s \<and>
              catch_block P (AxiosError response message) =
                McpError InternalError (''Spaceship API error: '' @ s))) \<and>
      (unconvertible (opt_get (opt_get response ''data'') ''message'') \<longrightarrow>
         catch_block P (AxiosError response message) = TypeError)) \<and>
   (\<forall>response message m.
      opt_get (opt_get response ''data'') ''message'' = Str m \<and> m \<noteq> [] \<longrightarrow>
        catch_block P (AxiosError response message) =
          McpError InternalError (''Spaceship API error: '' @ m)) \<and>
   (\<forall>response message.
      \<not> truthy (opt_get (opt_get response ''data'') ''message'') \<longrightarrow>
        catch_block P (AxiosError response message) =
          McpError InternalError (''Spaceship API error: '' @ message)) \<and>
   (\<forall>x. catch_block P (NonAxiosError x) = Rethrown x)"
proof -
  have 1: "fails_as_caught P ax (getDomains P ax take' skip')"
    by (simp add: fails_as_caught_def getDomains_def send_def split: sum.splits)
  have 2: "fails_as_caught P ax (getDnsRecords P ax (Str domain))"
    by (simp add: fails_as_caught_def getDnsRecords_def send_def split: sum.splits)
  have 3: "catch_block P (AxiosError response message) =
          McpError InternalError (''Spaceship API error: '' @ m)"
    if "opt_get (opt_get response ''data'') ''message'' = Str m \<and> m \<noteq> []"
    for response message m
    using that by (simp add: catch_block_def js_or_def)
  have 4: "catch_block P (AxiosError response message) =
          McpError InternalError (''Spaceship API error: '' @ message)"
    if "\<not> truthy (opt_get (opt_get response ''data'') ''message'')" for response message
    using that by (simp add: catch_block_def js_or_def)
  have 5: "catch_block P (NonAxiosError x) = Rethrown x" for x
    by (simp add: catch_block_def)
  have 6: "\<exists>s. ToString P (js_or (opt_get (opt_get response ''data'') ''message'') (Str message)) =
                 Inr s \<and>
              catch_block P (AxiosError response message) =
                McpError InternalError (''Spaceship API error: '' @ s)"
    if nu: "\<not> unconvertible (opt_get (opt_get response ''data'') ''message'')"
    for response message
  proof -
    have "\<not> unconvertible (js_or (opt_get (opt_get response ''data'') ''message'') (Str message))"
      using nu by (simp add: js_or_def)
    then obtain s where
      "ToString P (js_or (opt_get (opt_get response ''data'') ''message'') (Str message)) = Inr s"
      using ToString_returns by blast
    then show ?thesis by (auto simp: catch_block_def)
  qed
  have 7: "catch_block P (AxiosError response message) = TypeError"
    if un: "unconvertible (opt_get (opt_get response ''data'') ''message'')"
    for response message
  proof -
    have "js_or (opt_get (opt_get response ''data'') ''message'') (Str message) =
            opt_get (opt_get response ''data'') ''message''"
      using unconvertible_truthy [OF un] by (simp add: js_or_def)
    moreover have "ToString P (opt_get (opt_get response ''data'') ''message'') = Inl TypeError"
      using un by (simp add: ToString_throws_iff)
    ultimately show ?thesis by (simp add: catch_block_def)
  qed
  have ops: "list_all (fails_as_caught P ax)
     [getDomains P ax take' skip',
      checkDomainAvailability P ax (Str domain),
      getDomainInfo P ax (Str domain),
      registerDomain P ax (Str domain) (Str contactId),
      getDnsRecords P ax (Str domain),
      updateDnsRecords P ax (Str domain) records,
      getContact P ax (Str contactId),
      getAsyncOperation P ax (Str operationId)]"
    using 1 2
    by (simp add: fails_as_caught_send checkDomainAvailability_def getDomainInfo_def
        registerDomain_def updateDnsRecords_def getContact_def getAsyncOperation_def)
  show ?thesis using ops 3 4 5 6 7 by blast
qed

theorem gateway_error_mapping_witness:
  "fst (getDomainInfo stub_platform
          (throws (AxiosError (Obj [(''status'', Num (Fin 404)),
                                    (''data'', Obj [(''message'', Str ''Domain not found'')])])
                              ''Request failed with status code 404''))
          (Str ''example.com'')) =
     Inl (McpError InternalError ''Spaceship API error: Domain not found'') \<and>
   fst (getDomainInfo stub_platform (throws (AxiosError Undefined ''connect ECONNREFUSED''))
          (Str ''example.com'')) =
     Inl (McpError InternalError ''Spaceship API error: connect ECONNREFUSED'') \<and>
   unconvertible (opt_get (opt_get (Obj [(''data'', Obj [(''message'', Obj [(''toString'', Null)])])])
                            ''data'') ''message'') \<and>
   fst (getDomainInfo stub_platform
          (throws (AxiosError (Obj [(''data'', Obj [(''message'', Obj [(''toString'', Null)])])])
                              ''Request failed with status code 500''))
          (Str ''example.com'')) = Inl TypeError"
  using gateway_error_mapping [of stub_platform
      "throws (AxiosError (Obj [(''status'', Num (Fin 404)),
                                (''data'', Obj [(''message'', Str ''Domain not found'')])])
                          ''Request failed with status code 404'')"
      Undefined Undefined "''example.com''" "''c1''" Null "''op1''"]
    gateway_error_mapping [of stub_platform "throws (AxiosError Undefined ''connect ECONNREFUSED'')"
      Undefined Undefined "''example.com''" "''c1''" Null "''op1''"]
    gateway_error_mapping [of stub_platform
      "throws (AxiosError (Obj [(''data'', Obj [(''message'', Obj [(''toString'', Null)])])])
                          ''Request failed with status code 500'')"
      Undefined Undefined "''example.com''" "''c1''" Null "''op1''"]
  by (simp add: fails_as_caught_def getDomainInfo_def send_def throws_def)

text \<open>
  As the specification words it, C5 fails where the HTTP client throws something that is
  no AxiosError: the gateway lets it out as it came.
\<close>

theorem non_axios_exception_escapes:
  "getDomains stub_platform (throws (NonAxiosError ''socket hang up'')) Undefined Undefined =
     (Inl (Rethrown ''socket hang up''),
      [GET ''/domains'' [(''take'', Num (Fin 10)), (''skip'', Num (Fin 0))]])"
  by (simp add: getDomains_def send_def throws_def catch_block_def default_param_def)

text \<open>
  C3. When the gateway fails to list the domains, the list-resources handler returns the
  empty list of resources and throws nothing, and the handler of the \<^verbatim>\<open>get_domains\<close>
  tool throws the gateway's failure as it is, class and message. That failure is the
  \<open>McpError\<close> of code \<open>InternalError\<close> with the upstream message behind the prefix when the
  HTTP client threw an AxiosError whose message converts to text.
\<close>

theorem gateway_failure_list_and_tool:
  assumes "fst (getDomains P ax Undefined Undefined) = Inl e"
    and "ToNumber P (opt_get arguments ''take'') = Inr t"
    and "ToNumber P (opt_get arguments ''skip'') = Inr s"
    and "fst (getDomains P ax (number_or t (Fin 10)) (number_or s (Fin 0))) = Inl e"
  shows "fst (ListResources P ax) = Obj [(''resources'', Arr [])] \<and>
         fst (CallTool P ax ''get_domains'' arguments) = Inl e \<and>
         (\<forall>response message m.
            ax (GET ''/domains'' [(''take'', number_or t (Fin 10)),
                                 (''skip'', number_or s (Fin 0))]) =
              Inl (AxiosError response message) \<and>
            ToString P (js_or (opt_get (opt_get response ''data'') ''message'') (Str message)) =
              Inr m \<longrightarrow>
            e = McpError InternalError (''Spaceship API error: '' @ m))"
proof -
  have a: "fst (ListResources P ax) = Obj [(''resources'', Arr [])]"
    using assms(1) by (auto simp: ListResources_def split: prod.splits sum.splits)
  have b: "fst (CallTool P ax ''get_domains'' arguments) = Inl e"
    using assms(2,3,4) by (simp add: CallTool_def tool_result_fst_Inl)
  have c: "e = McpError InternalError (''Spaceship API error: '' @ m)"
    if "ax (GET ''/domains'' [(''take'', number_or t (Fin 10)),
                             (''skip'', number_or s (Fin 0))]) =
          Inl (AxiosError response message) \<and>
        ToString P (js_or (opt_get (opt_get response ''data'') ''message'') (Str message)) = Inr m"
    for response message m
    using that assms(4)
    by (simp add: getDomains_def send_def default_param_def number_or_eq catch_block_def)
  show ?thesis using a b c by blast
qed

theorem gateway_failure_list_and_tool_witness:
  "fst (getDomains stub_platform
          (throws (AxiosError (Obj [(''data'', Obj [(''message'', Str ''Unauthorized'')])])
                              ''Request failed with status code 401''))
          Undefined Undefined) =
     Inl (McpError InternalError ''Spaceship API error: Unauthorized'') \<and>
   fst (ListResources stub_platform
          (throws (AxiosError (Obj [(''data'', Obj [(''message'', Str ''Unauthorized'')])])
                              ''Request failed with status code 401''))) =
     Obj [(''resources'', Arr [])] \<and>
   fst (CallTool stub_platform
          (throws (AxiosError (Obj [(''data'', Obj [(''message'', Str ''Unauthorized'')])])
                              ''Request failed with status code 401''))
          ''get_domains'' (Obj [(''take'', Num (Fin 5))])) =
     Inl (McpError InternalError ''Spaceship API error: Unauthorized'')"
proof -
  let ?ax = "throws (AxiosError (Obj [(''data'', Obj [(''message'', Str ''Unauthorized'')])])
                              ''Request failed with status code 401'')"
  let ?e = "McpError InternalError ''Spaceship API error: Unauthorized''"
  let ?args = "Obj [(''take'', Num (Fin 5))]"
  have h1: "fst (getDomains stub_platform ?ax Undefined Undefined) = Inl ?e"
    by (simp add: getDomains_def send_def throws_def catch_block_def js_or_def)
  have h2: "ToNumber stub_platform (opt_get ?args ''take'') = Inr (Fin 5)" by simp
  have h3: "ToNumber stub_platform (opt_get ?args ''skip'') = Inr NaN" by simp
  have h4: "fst (getDomains stub_platform ?ax (number_or (Fin 5) (Fin 10)) (number_or NaN (Fin 0))) =
              Inl ?e"
    by (simp add: getDomains_def send_def throws_def catch_block_def js_or_def)
  show ?thesis
    using h1 gateway_failure_list_and_tool [OF h1 h2 h3 h4] by simp
qed

text \<open>
  As the specification words it, C3 fails where the failure of the gateway is not of code
  \<open>InternalError\<close>: on an upstream body \<^verbatim>\<open>null\<close> the gateway's read of \<^verbatim>\<open>data.domains\<close>
  throws a TypeError, and that is what the tool throws.
\<close>

theorem null_body_type_error:
  "fst (getDomains stub_platform (responds Null) Undefined Undefined) = Inl TypeError \<and>
   fst (ListResources stub_platform (responds Null)) = Obj [(''resources'', Arr [])] \<and>
   fst (CallTool stub_platform (responds Null) ''get_domains'' Undefined) = Inl TypeError"
  by (simp add: getDomains_def send_def responds_def ListResources_def CallTool_def
      tool_result_def number_or_def js_or_def)


section \<open>Resource URIs\<close>

text \<open>
  The list handler makes of each Domain with a name, a status and an expiry that are
  strings the resource \<^verbatim>\<open>spaceship://domains/<name>\<close>, of type JSON, named as the domain
  and described by its status and expiry.
\<close>

theorem listed_resources:
  "ListResources P
       (responds (Obj [(''domains'',
          Arr (map (\<lambda>(n, s, x). Obj [(''name'', Str n), (''status'', Str s), (''expiresAt'', Str x)])
                 ds))])) =
     (Obj [(''resources'',
           Arr (map (\<lambda>(n, s, x).
                      Obj [(''uri'', Str (''spaceship://domains/'' @ n)),
                           (''mimeType'', Str ''application/json''),
                           (''name'', Str n),
                           (''description'',
                            Str (''Domain: '' @ n @ '' (Status: '' @ s @ '', Expires: '' @ x @ '')''))])
                  ds))],
      [GET ''/domains'' [(''take'', Num (Fin 10)), (''skip'', Num (Fin 0))]])"
proof -
  have "collect (map (resource P)
          (map (\<lambda>(n, s, x). Obj [(''name'', Str n), (''status'', Str s), (''expiresAt'', Str x)]) ds)) =
        Inr (map (\<lambda>(n, s, x).
                      Obj [(''uri'', Str (''spaceship://domains/'' @ n)),
                           (''mimeType'', Str ''application/json''),
                           (''name'', Str n),
                           (''description'',
                            Str (''Domain: '' @ n @ '' (Status: '' @ s @ '', Expires: '' @ x @ '')''))])
                  ds)"
    by (induction ds) (auto simp: resource_def)
  then show ?thesis
    by (simp add: ListResources_def getDomains_def send_def responds_def default_param_def)
qed

text \<open>
  C2. The list handler names the Domain \<^verbatim>\<open>example.com\<close> by the URI
  \<^verbatim>\<open>spaceship://domains/example.com\<close>. The read handler does not take that URI: the URL
  parser reads \<^verbatim>\<open>domains\<close> as the host and \<^verbatim>\<open>/example.com\<close> as the path, the first part
  of the path is not \<^verbatim>\<open>domains\<close>, and the handler throws "Unsupported resource URI"
  without asking the gateway, whatever the gateway would have answered.
\<close>

theorem listed_uri_is_rejected:
  "fst (ListResources P (responds (Obj [(''domains'', Arr [example_domain])]))) =
     Obj [(''resources'',
          Arr [Obj [(''uri'', Str ''spaceship://domains/example.com''),
                    (''mimeType'', Str ''application/json''),
                    (''name'', Str ''example.com''),
                    (''description'',
                     Str ''Domain: example.com (Status: active, Expires: 2026-01-01)'')]])] \<and>
   new_URL P ''spaceship://domains/example.com'' =
     Some \<lparr>protocol = ''spaceship:'', hostname = ''domains'', pathname = ''/example.com''\<rparr> \<and>
   ReadResource P (responds example_domain) ''spaceship://domains/example.com'' =
     (Inl (McpError InvalidRequest ''Unsupported resource URI: spaceship://domains/example.com''),
      [])"
proof -
  have a: "fst (ListResources P (responds (Obj [(''domains'', Arr [example_domain])]))) =
     Obj [(''resources'',
          Arr [Obj [(''uri'', Str ''spaceship://domains/example.com''),
                    (''mimeType'', Str ''application/json''),
                    (''name'', Str ''example.com''),
                    (''description'',
                     Str ''Domain: example.com (Status: active, Expires: 2026-01-01)'')]])]"
    by (simp add: ListResources_def getDomains_def send_def responds_def default_param_def
        resource_def example_domain_def)
  have b: "new_URL P ''spaceship://domains/example.com'' =
     Some \<lparr>protocol = ''spaceship:'', hostname = ''domains'', pathname = ''/example.com''\<rparr>"
    by (simp add: url_eval)
  have c: "ReadResource P (responds example_domain) ''spaceship://domains/example.com'' =
     (Inl (McpError InvalidRequest ''Unsupported resource URI: spaceship://domains/example.com''),
      [])"
    by (simp add: ReadResource_def b pathParts_def at_index_def unsupported_def)
  show ?thesis using a b c by simp
qed

text \<open>
  The same holds for every name of plain characters but \<^verbatim>\<open>domains\<close> itself: the URI under
  which the list handler offers a domain is one the read handler rejects.
\<close>

theorem listed_uris_are_rejected:
  assumes "n \<noteq> []" and "\<forall>c \<in> set n. plain c" and "\<not> single_dot n" and "\<not> double_dot n"
    and "n \<noteq> ''domains''"
  shows "ReadResource P ax (''spaceship://domains/'' @ n) =
           (Inl (McpError InvalidRequest (''Unsupported resource URI: spaceship://domains/'' @ n)),
            [])"
proof -
  have d: "\<forall>c \<in> set ''domains''. plain c"
    by (simp add: plain_def ascii_alpha_def)
  have "\<forall>c \<in> set n. plain c \<or> c = CHR ''/''" using assms(2) by blast
  then have u: "new_URL P (''spaceship://'' @ ''domains'' @ CHR ''/'' # n) =
      Some \<lparr>protocol = ''spaceship:'', hostname = ''domains'', pathname = parse_path n\<rparr>"
    using d by (intro new_URL_plain) simp_all
  have pn: "parse_path n = CHR ''/'' # n"
    using assms(2,3,4) by (rule parse_path_plain)
  have "CHR ''/'' \<notin> set n" using assms(2) plain_simps(11) by blast
  then have pp: "pathParts (CHR ''/'' # n) = [n]"
    using assms(1) by (simp add: pathParts_Cons_sep pathParts_last)
  have "ReadResource P ax (''spaceship://'' @ ''domains'' @ CHR ''/'' # n) =
          unsupported (''spaceship://'' @ ''domains'' @ CHR ''/'' # n)"
    unfolding ReadResource_def u using assms(5) by (simp add: pn pp at_index_def)
  then show ?thesis by (simp add: unsupported_def)
qed

theorem listed_uris_are_rejected_witness:
  "list_all plain ''my-site.example.org'' \<and>
   ReadResource stub_platform (responds example_domain) ''spaceship://domains/my-site.example.org'' =
     (Inl (McpError InvalidRequest
             ''Unsupported resource URI: spaceship://domains/my-site.example.org''), [])"
proof -
  have p: "\<forall>c \<in> set ''my-site.example.org''. plain c"
    by (simp add: plain_def ascii_alpha_def ascii_digit_def)
  have s: "\<not> single_dot ''my-site.example.org''" "\<not> double_dot ''my-site.example.org''"
    by (simp_all add: single_dot_def double_dot_def ascii_lower_def)
  have l: "list_all plain ''my-site.example.org''"
    using p by (simp only: list_all_iff)
  show ?thesis
    using l listed_uris_are_rejected
        [OF _ p s, of stub_platform "responds example_domain"]
    by simp
qed




text \<open>
  C10. For a URI that the URL parser reads with the scheme \<^verbatim>\<open>spaceship\<close> and a path
  \<^verbatim>\<open>/domains/<name>\<close>, more parts behind the name or not, the read handler asks the
  gateway for \<^verbatim>\<open>name\<close> and returns its answer as one block of JSON text, or throws "Domain
  \<^verbatim>\<open>name\<close> not found" when the gateway fails. The host of the URL is any: nothing in the
  result depends on \<open>hostname u\<close>. The authority counts only where the parser refuses it:
  then the constructor throws, and the handler fails with that TypeError before any
  request.
\<close>

theorem authority_is_ignored:
  "(new_URL P uri = Some u \<and> protocol u = ''spaceship:'' \<and>
    pathname u = ''/domains/'' @ name @ rest \<and>
    name \<noteq> [] \<and> CHR ''/'' \<notin> set name \<and> (rest = [] \<or> hd rest = CHR ''/'') \<longrightarrow>
      ReadResource P ax uri =
        (case ax (GET (''/domains/'' @ name) []) of
           Inr domainInfo \<Rightarrow>
             (Inr (Obj [(''contents'',
                        Arr [Obj [(''uri'', Str uri), (''mimeType'', Str ''application/json''),
                                  (''text'', JSON_stringify P domainInfo)]])]),
              [GET (''/domains/'' @ name) []])
         | Inl e \<Rightarrow>
             (Inl (McpError InvalidRequest (''Domain '' @ name @ '' not found'')),
              [GET (''/domains/'' @ name) []]))) \<and>
   (new_URL P uri = None \<longrightarrow> ReadResource P ax uri = (Inl TypeError, []))"
proof -
  have a: "ReadResource P ax uri =
        (case ax (GET (''/domains/'' @ name) []) of
           Inr domainInfo \<Rightarrow>
             (Inr (Obj [(''contents'',
                        Arr [Obj [(''uri'', Str uri), (''mimeType'', Str ''application/json''),
                                  (''text'', JSON_stringify P domainInfo)]])]),
              [GET (''/domains/'' @ name) []])
         | Inl e \<Rightarrow>
             (Inl (McpError InvalidRequest (''Domain '' @ name @ '' not found'')),
              [GET (''/domains/'' @ name) []]))"
    if u: "new_URL P uri = Some u" and pr: "protocol u = ''spaceship:''"
      and pa: "pathname u = ''/domains/'' @ name @ rest"
      and n1: "name \<noteq> []" and n2: "CHR ''/'' \<notin> set name"
      and r: "rest = [] \<or> hd rest = CHR ''/''"
  proof -
    obtain more where "pathParts (pathname u) = ''domains'' # name # more"
      using pathParts_domains [OF n1 n2 r] pa by auto
    then show ?thesis
      using u pr
      by (simp add: ReadResource_def at_index_def getDomainInfo_def send_def split: sum.splits)
  qed
  have b: "ReadResource P ax uri = (Inl TypeError, [])" if "new_URL P uri = None"
    using that by (simp add: ReadResource_def)
  show ?thesis using a b by blast
qed

theorem authority_is_ignored_witness:
  "new_URL stub_platform ''spaceship://anything/domains/example.com'' =
     Some \<lparr>protocol = ''spaceship:'', hostname = ''anything'',
           pathname = ''/domains/example.com''\<rparr> \<and>
   ReadResource stub_platform (responds example_domain)
       ''spaceship://anything/domains/example.com'' =
     (Inr (Obj [(''contents'',
                Arr [Obj [(''uri'', Str ''spaceship://anything/domains/example.com''),
                          (''mimeType'', Str ''application/json''),
                          (''text'', JSON_stringify stub_platform example_domain)]])]),
      [GET ''/domains/example.com'' []]) \<and>
   new_URL stub_platform ''spaceship://user@registry.test:8080/domains/example.com/dns'' =
     Some \<lparr>protocol = ''spaceship:'', hostname = ''registry.test'',
           pathname = ''/domains/example.com/dns''\<rparr> \<and>
   ReadResource stub_platform (throws (NonAxiosError ''timeout''))
       ''spaceship://user@registry.test:8080/domains/example.com/dns'' =
     (Inl (McpError InvalidRequest ''Domain example.com not found''),
      [GET ''/domains/example.com'' []]) \<and>
   new_URL stub_platform ''spaceship://a b/domains/example.com'' = None \<and>
   ReadResource stub_platform (responds example_domain) ''spaceship://a b/domains/example.com'' =
     (Inl TypeError, [])"
proof -
  have p: "new_URL stub_platform ''spaceship://anything/domains/example.com'' =
     Some \<lparr>protocol = ''spaceship:'', hostname = ''anything'',
           pathname = ''/domains/example.com''\<rparr>"
    by (simp add: url_eval)
  have q: "new_URL stub_platform ''spaceship://user@registry.test:8080/domains/example.com/dns'' =
     Some \<lparr>protocol = ''spaceship:'', hostname = ''registry.test'',
           pathname = ''/domains/example.com/dns''\<rparr>"
    by (simp add: url_eval)
  have r: "new_URL stub_platform ''spaceship://a b/domains/example.com'' = None"
    by (simp add: url_eval)
  have a: "ReadResource stub_platform (responds example_domain)
       ''spaceship://anything/domains/example.com'' =
     (Inr (Obj [(''contents'',
                Arr [Obj [(''uri'', Str ''spaceship://anything/domains/example.com''),
                          (''mimeType'', Str ''application/json''),
                          (''text'', JSON_stringify stub_platform example_domain)]])]),
      [GET ''/domains/example.com'' []])"
    using authority_is_ignored
        [of stub_platform "''spaceship://anything/domains/example.com''"
          "\<lparr>protocol = ''spaceship:'', hostname = ''anything'',
             pathname = ''/domains/example.com''\<rparr>"
          "''example.com''" "[]" "responds example_domain"] p
    by (simp add: responds_def)
  have b: "ReadResource stub_platform (throws (NonAxiosError ''timeout''))
       ''spaceship://user@registry.test:8080/domains/example.com/dns'' =
     (Inl (McpError InvalidRequest ''Domain example.com not found''),
      [GET ''/domains/example.com'' []])"
    using authority_is_ignored
        [of stub_platform "''spaceship://user@registry.test:8080/domains/example.com/dns''"
          "\<lparr>protocol = ''spaceship:'', hostname = ''registry.test'',
             pathname = ''/domains/example.com/dns''\<rparr>"
          "''example.com''" "''/dns''" "throws (NonAxiosError ''timeout'')"] q
    by (simp add: throws_def)
  have c: "ReadResource stub_platform (responds example_domain)
       ''spaceship://a b/domains/example.com'' = (Inl TypeError, [])"
    using authority_is_ignored
        [of stub_platform "''spaceship://a b/domains/example.com''"
          "\<lparr>protocol = [], hostname = [], pathname = []\<rparr>" "[]" "[]"
          "responds example_domain"] r
    by simp
  show ?thesis using p q r a b c by simp
qed

text \<open>
  As C10 is worded, for any authority, it fails on a port above 65535: the parser refuses
  the URI and the request fails, where the same URI with the port 65535 is served.
\<close>

theorem port_decides_acceptance:
  "ReadResource stub_platform (responds example_domain)
       ''spaceship://h:65536/domains/example.com'' = (Inl TypeError, []) \<and>
   ReadResource stub_platform (responds example_domain)
       ''spaceship://h:65535/domains/example.com'' =
     (Inr (Obj [(''contents'',
                Arr [Obj [(''uri'', Str ''spaceship://h:65535/domains/example.com''),
                          (''mimeType'', Str ''application/json''),
                          (''text'', JSON_stringify stub_platform example_domain)]])]),
      [GET ''/domains/example.com'' []])"
proof -
  have a: "new_URL stub_platform ''spaceship://h:65536/domains/example.com'' = None"
    by (simp add: url_eval)
  have b: "new_URL stub_platform ''spaceship://h:65535/domains/example.com'' =
     Some \<lparr>protocol = ''spaceship:'', hostname = ''h'', pathname = ''/domains/example.com''\<rparr>"
    by (simp add: url_eval)
  show ?thesis
    by (simp add: ReadResource_def a b pathParts_def at_index_def getDomainInfo_def send_def
        responds_def)
qed

text \<open>
  Read on the text of the URI: whatever host of plain characters stands between
  \<^verbatim>\<open>spaceship://\<close> and \<^verbatim>\<open>/domains/<name>\<close>, the parser gives it back as the host, and
  the handler asks the gateway for the same \<^verbatim>\<open>name\<close>.
\<close>

theorem plain_host_is_ignored:
  assumes "h \<noteq> []" and "\<forall>c \<in> set h. plain c"
    and "n \<noteq> []" and "\<forall>c \<in> set n. plain c" and "\<not> single_dot n" and "\<not> double_dot n"
  shows "new_URL P (''spaceship://'' @ h @ ''/domains/'' @ n) =
           Some \<lparr>protocol = ''spaceship:'', hostname = h, pathname = ''/domains/'' @ n\<rparr> \<and>
         snd (ReadResource P ax (''spaceship://'' @ h @ ''/domains/'' @ n)) =
           [GET (''/domains/'' @ n) []]"
proof -
  have "\<forall>c \<in> set (''domains/'' @ n). plain c \<or> c = CHR ''/''"
    using assms(4) by (auto simp: plain_def ascii_alpha_def)
  then have "new_URL P (''spaceship://'' @ h @ CHR ''/'' # ''domains/'' @ n) =
      Some \<lparr>protocol = ''spaceship:'', hostname = h, pathname = parse_path (''domains/'' @ n)\<rparr>"
    using assms(1,2) by (intro new_URL_plain)
  then have u: "new_URL P (''spaceship://'' @ h @ ''/domains/'' @ n) =
      Some \<lparr>protocol = ''spaceship:'', hostname = h, pathname = ''/domains/'' @ n\<rparr>"
    using parse_path_domains [OF assms(4,5,6)] by simp
  have ns: "CHR ''/'' \<notin> set n" using assms(4) plain_simps(11) by blast
  obtain more where "pathParts (''/domains/'' @ n) = ''domains'' # n # more"
    using pathParts_domains [OF assms(3) ns, of "[]"] by auto
  then have "snd (ReadResource P ax (''spaceship://'' @ h @ ''/domains/'' @ n)) =
           [GET (''/domains/'' @ n) []]"
    unfolding ReadResource_def u
    by (simp add: at_index_def getDomainInfo_def send_def split: sum.splits)
  then show ?thesis using u by simp
qed

theorem plain_host_is_ignored_witness:
  "list_all plain ''a.b-c'' \<and> list_all plain ''example.com'' \<and>
   new_URL stub_platform ''spaceship://a.b-c/domains/example.com'' =
     Some \<lparr>protocol = ''spaceship:'', hostname = ''a.b-c'', pathname = ''/domains/example.com''\<rparr> \<and>
   snd (ReadResource stub_platform (responds example_domain)
          ''spaceship://a.b-c/domains/example.com'') =
     [GET ''/domains/example.com'' []]"
proof -
  have h: "\<forall>c \<in> set ''a.b-c''. plain c"
    by (simp add: plain_def ascii_alpha_def ascii_digit_def)
  have n: "\<forall>c \<in> set ''example.com''. plain c"
    by (simp add: plain_def ascii_alpha_def ascii_digit_def)
  have d: "\<not> single_dot ''example.com''" "\<not> double_dot ''example.com''"
    by (simp_all add: single_dot_def double_dot_def ascii_lower_def)
  have l: "list_all plain ''a.b-c''" "list_all plain ''example.com''"
    using h n by (simp_all only: list_all_iff)
  show ?thesis
    using l plain_host_is_ignored [OF _ h _ n d, of stub_platform "responds example_domain"]
    by simp
qed

end
